theory Spec2Isabelle
  imports Main "HOL-Library.Sublist"
begin

section \<open>Strings and numbers of the host language\<close>

text \<open>
  The script works on JavaScript strings. A string is modelled as a list of code units in
  the range U+0000 to U+00FF (one \<^typ>\<open>char\<close> each); on that range the library functions
  the script calls are written out below.

  The numbers that the script handles are step numbers. \<open>Num i\<close> stands for the
  number that the host makes of the integer \<open>i\<close>: up to \<open>2\<^sup>5\<^sup>3\<close> in size that
  number is \<open>i\<close> itself, its text is the decimal numeral of \<open>i\<close> and subtracting one is
  exact. Beyond that size the host rounds; what it prints and what it subtracts there are
  left to the host (see \<open>host\<close> below). \<open>NaN\<close> is the not-a-number value that
  \<open>parseInt\<close> may return.
\<close>

definition is_space :: "char \<Rightarrow> bool" where
  \<comment> \<open>white space and line terminators removed by \<open>String.prototype.trim\<close>\<close>
  "is_space c = ((of_char c :: nat) \<in> {9, 10, 11, 12, 13, 32, 160})"

definition trim :: "string \<Rightarrow> string" where
  "trim s = rev (dropWhile is_space (rev (dropWhile is_space s)))"

definition lower_char :: "char \<Rightarrow> char" where
  \<comment> \<open>A to Z, and the accented capitals U+00C0 to U+00DE without the multiplication sign\<close>
  "lower_char c =
     (let n = (of_char c :: nat) in
      if (65 \<le> n \<and> n \<le> 90) \<or> (192 \<le> n \<and> n \<le> 222 \<and> n \<noteq> 215)
      then char_of (n + 32) else c)"

definition toLowerCase :: "string \<Rightarrow> string" where
  "toLowerCase s = map lower_char s"

fun str_includes :: "string \<Rightarrow> string \<Rightarrow> bool" where
  \<comment> \<open>\<open>s.includes(t)\<close>: \<open>t\<close> occurs in \<open>s\<close> as a contiguous run\<close>
  "str_includes [] t = (t = [])"
| "str_includes (c # s) t = (prefix t (c # s) \<or> str_includes s t)"

datatype jsnum = Num int | NaN

fun string_of_nat :: "nat \<Rightarrow> string" where
  "string_of_nat n =
     (if n < 10 then [char_of (48 + n)]
      else string_of_nat (n div 10) @ [char_of (48 + n mod 10)])"

declare string_of_nat.simps [simp del]

definition string_of_int :: "int \<Rightarrow> string" where
  "string_of_int i = (if i < 0 then CHR ''-'' # string_of_nat (nat (- i)) else string_of_nat (nat i))"

definition exact_int :: "int \<Rightarrow> bool" where
  \<comment> \<open>the integers up to \<open>2\<^sup>5\<^sup>3\<close> in size, on which the host computes exactly\<close>
  "exact_int i = (\<bar>i\<bar> \<le> 9007199254740992)"

definition digit_value :: "char \<Rightarrow> nat option" where
  "digit_value c =
     (let n = (of_char c :: nat) in
      if 48 \<le> n \<and> n \<le> 57 then Some (n - 48)
      else if 97 \<le> n \<and> n \<le> 102 then Some (n - 87)
      else if 65 \<le> n \<and> n \<le> 70 then Some (n - 55)
      else None)"

definition is_digit :: "nat \<Rightarrow> char \<Rightarrow> bool" where
  "is_digit radix c = (case digit_value c of None \<Rightarrow> False | Some d \<Rightarrow> d < radix)"

fun digits_value :: "nat \<Rightarrow> nat \<Rightarrow> string \<Rightarrow> nat" where
  "digits_value radix acc [] = acc"
| "digits_value radix acc (c # cs) =
     digits_value radix (acc * radix + (case digit_value c of None \<Rightarrow> 0 | Some d \<Rightarrow> d)) cs"

definition parseInt :: "string \<Rightarrow> jsnum" where
  \<comment> \<open>\<open>parseInt(s)\<close> without a radix: leading white space, a sign, an optional
      \<open>0x\<close> prefix, then the longest run of digits; no digit gives NaN. The result is
      the number that the host makes of the integer read.\<close>
  "parseInt s =
     (let s1 = dropWhile is_space s;
          neg = (s1 \<noteq> [] \<and> hd s1 = CHR ''-'');
          s2 = (if s1 \<noteq> [] \<and> (hd s1 = CHR ''-'' \<or> hd s1 = CHR ''+'') then tl s1 else s1);
          hex = (prefix ''0x'' s2 \<or> prefix ''0X'' s2);
          radix = (if hex then 16 else 10);
          s3 = (if hex then drop 2 s2 else s2);
          z = takeWhile (is_digit radix) s3
      in if z = [] then NaN
         else Num ((if neg then - 1 else 1) * int (digits_value radix 0 z)))"


section \<open>The presentation tree\<close>

text \<open>
  The page is a list of element nodes in document order; a node is referred to by its
  position. Each node carries what the script reads or writes: tag name, \<open>id\<close>, class
  list, attributes (\<open>data-*\<close> and \<open>aria-*\<close> among them), the \<open>hidden\<close>
  flag, the inline opacity, its text content and its parent. The content of the page is
  not part of the script; every operation takes it as it finds it.
\<close>

record node =
  tagName :: string
  elem_id :: string  \<comment> \<open>the empty string when the element has no id\<close>
  classList :: "string list"
  attributes :: "string \<rightharpoonup> string"
  hidden :: bool
  opacity :: string
  textContent :: string
  parentNode :: "nat option"

definition has_class :: "string \<Rightarrow> node \<Rightarrow> bool" where
  "has_class c n = (c \<in> set (classList n))"

definition classList_add :: "string \<Rightarrow> node \<Rightarrow> node" where
  "classList_add c n =
     n\<lparr>classList := (if c \<in> set (classList n) then classList n else classList n @ [c])\<rparr>"

definition classList_remove :: "string \<Rightarrow> node \<Rightarrow> node" where
  "classList_remove c n = n\<lparr>classList := filter (\<lambda>x. x \<noteq> c) (classList n)\<rparr>"

definition classList_toggle :: "string \<Rightarrow> bool \<Rightarrow> node \<Rightarrow> node" where
  \<comment> \<open>\<open>classList.toggle(c, force)\<close>\<close>
  "classList_toggle c force n = (if force then classList_add c n else classList_remove c n)"

definition getAttribute :: "string \<Rightarrow> node \<Rightarrow> string option" where
  "getAttribute k n = attributes n k"

definition setAttribute :: "string \<Rightarrow> string \<Rightarrow> node \<Rightarrow> node" where
  "setAttribute k v n = n\<lparr>attributes := (attributes n)(k \<mapsto> v)\<rparr>"

definition hasAttribute :: "string \<Rightarrow> node \<Rightarrow> bool" where
  "hasAttribute k n = (case attributes n k of None \<Rightarrow> False | Some v \<Rightarrow> True)"

definition string_of_bool :: "bool \<Rightarrow> string" where
  "string_of_bool b = (if b then ''true'' else ''false'')"

definition truthy :: "string option \<Rightarrow> bool" where
  \<comment> \<open>a \<open>dataset\<close> entry in a condition: present and not the empty string\<close>
  "truthy v = (case v of None \<Rightarrow> False | Some s \<Rightarrow> s \<noteq> [])"

definition querySelectorAll :: "(node \<Rightarrow> bool) \<Rightarrow> node list \<Rightarrow> nat list" where
  "querySelectorAll sel doc = filter (\<lambda>i. sel (doc ! i)) [0..<length doc]"

definition querySelector :: "(node \<Rightarrow> bool) \<Rightarrow> node list \<Rightarrow> nat option" where
  "querySelector sel doc = (case querySelectorAll sel doc of [] \<Rightarrow> None | i # _ \<Rightarrow> Some i)"

definition getElementById :: "node list \<Rightarrow> string \<Rightarrow> nat option" where
  \<comment> \<open>the first element with that id; no element has the empty id\<close>
  "getElementById doc i = (if i = [] then None else querySelector (\<lambda>n. elem_id n = i) doc)"

definition forEachNode :: "(node \<Rightarrow> bool) \<Rightarrow> (node \<Rightarrow> node) \<Rightarrow> node list \<Rightarrow> node list" where
  \<comment> \<open>\<open>document.querySelectorAll(sel).forEach(f)\<close> for an \<open>f\<close> that writes to its own node\<close>
  "forEachNode sel f doc = map (\<lambda>n. if sel n then f n else n) doc"

definition update_node :: "nat \<Rightarrow> (node \<Rightarrow> node) \<Rightarrow> node list \<Rightarrow> node list" where
  "update_node i f doc = doc[i := f (doc ! i)]"

fun ancestor_within :: "node list \<Rightarrow> nat \<Rightarrow> nat \<Rightarrow> nat \<Rightarrow> bool" where
  \<comment> \<open>\<open>a\<close> is reached from \<open>i\<close> in at most \<open>k\<close> parent steps (at least one)\<close>
  "ancestor_within doc 0 a i = False"
| "ancestor_within doc (Suc k) a i =
     (i < length doc \<and>
      (case parentNode (doc ! i) of None \<Rightarrow> False
       | Some p \<Rightarrow> p = a \<or> ancestor_within doc k a p))"

definition contains_node :: "node list \<Rightarrow> nat \<Rightarrow> nat \<Rightarrow> bool" where
  \<comment> \<open>\<open>i\<close> is a descendant of \<open>a\<close>\<close>
  "contains_node doc a i = ancestor_within doc (length doc) a i"

definition querySelectorIn :: "node list \<Rightarrow> nat \<Rightarrow> (node \<Rightarrow> bool) \<Rightarrow> nat option" where
  \<comment> \<open>\<open>element.querySelector(sel)\<close>: the first descendant that matches\<close>
  "querySelectorIn doc a sel =
     (case filter (\<lambda>i. contains_node doc a i \<and> sel (doc ! i)) [0..<length doc] of
        [] \<Rightarrow> None | i # _ \<Rightarrow> Some i)"

fun closest_within :: "node list \<Rightarrow> nat \<Rightarrow> (node \<Rightarrow> bool) \<Rightarrow> nat \<Rightarrow> nat option" where
  "closest_within doc 0 sel i = None"
| "closest_within doc (Suc k) sel i =
     (if i < length doc then
        (if sel (doc ! i) then Some i
         else case parentNode (doc ! i) of None \<Rightarrow> None
              | Some p \<Rightarrow> closest_within doc k sel p)
      else None)"

definition closest :: "node list \<Rightarrow> nat \<Rightarrow> (node \<Rightarrow> bool) \<Rightarrow> nat option" where
  \<comment> \<open>\<open>element.closest(sel)\<close>: the element itself or its nearest matching ancestor\<close>
  "closest doc i sel = closest_within doc (Suc (length doc)) sel i"

section \<open>Interaction state and the world around it\<close>

record state =
  activeTab :: string
  expandedPanels :: "string list"
  decisionTreeStep :: jsnum
  glossaryOpen :: bool

definition initial_state :: state where
  "initial_state =
     \<lparr>activeTab = ''resident'', expandedPanels = [], decisionTreeStep = Num 1,
      glossaryOpen = False\<rparr>"

datatype error = TypeError | SecurityError | QuotaExceededError | SyntaxError

datatype scroll_block = Nearest | Center

datatype deferred =
    ScrollIntoViewLater nat
  | ClearHighlights
  | RemoveNotification string

datatype effect =
    Alert string
  | ConsoleLog "string list"
  | ConsoleWarn string error
  | UncaughtError error
  | SetTimeout deferred nat
  | ScrollIntoView nat scroll_block
  | Focus nat
  | Notification string string

record storage =
  available :: bool
  items :: "string \<rightharpoonup> string"
  quota :: nat

text \<open>
  The host is the browser as far as the script relies on it without fixing what it does.
  Four of its answers are left open; the properties below are stated for every host:

    \<^item> \<open>selectorQuery\<close>: the answer of \<open>document.querySelector\<close> to a selector
      text into which the script has put a value that a selector string cannot hold as it
      is (see \<open>css_plain\<close>). The host may raise a syntax error or return any element
      or none.
    \<^item> \<open>numberToString\<close> and \<open>minusOne\<close>: the text of a number and the result of
      subtracting one beyond the size up to which integers are exact.
    \<^item> \<open>dispatchClick\<close>: what a click does on an element other than an enabled
      expand button that is alone on its event path (see \<open>click\<close>). It may raise, and
      it may change any part of the world that the operations change.
\<close>

type_synonym snapshot = "node list \<times> state \<times> string \<times> storage \<times> effect list"

record host =
  selectorQuery :: "string \<Rightarrow> node list \<Rightarrow> error + nat option"
  numberToString :: "int \<Rightarrow> string"
  minusOne :: "int \<Rightarrow> int"
  dispatchClick :: "nat \<Rightarrow> snapshot \<Rightarrow> error + snapshot"

record world =
  document :: "node list"
  st :: state
  bodyOverflow :: string
  localStorage :: storage
  trace :: "effect list"
  host :: host

definition string_of_jsnum :: "host \<Rightarrow> jsnum \<Rightarrow> string" where
  \<comment> \<open>the text a template literal inserts for a number\<close>
  "string_of_jsnum h k =
     (case k of
        Num i \<Rightarrow> if exact_int i then string_of_int i else numberToString h i
      | NaN \<Rightarrow> ''NaN'')"

definition css_plain :: "string \<Rightarrow> bool" where
  \<comment> \<open>no double quote, backslash, line feed, carriage return, form feed or NUL: between
      double quotes in a selector such a text stands for itself\<close>
  "css_plain v = list_all (\<lambda>c. (of_char c :: nat) \<notin> {0, 10, 12, 13, 34, 92}) v"

definition querySelectorAttr ::
  "host \<Rightarrow> string \<Rightarrow> (node \<Rightarrow> bool) \<Rightarrow> string \<Rightarrow> string \<Rightarrow> node list
     \<Rightarrow> error + nat option" where
  \<comment> \<open>\<open>document.querySelector(`pre[k="${v}"]`)\<close>, where \<open>sel\<close> is the meaning of
      \<open>pre\<close>. For a plain \<open>v\<close> it is the first element that matches \<open>pre\<close> and
      whose attribute \<open>k\<close> equals \<open>v\<close>; otherwise the host answers for the text.\<close>
  "querySelectorAttr h pre sel k v doc =
     (if css_plain v then Inr (querySelector (\<lambda>n. sel n \<and> getAttribute k n = Some v) doc)
      else
        case selectorQuery h (pre @ ''['' @ k @ ''='' @ [CHR 0x22] @ v @ [CHR 0x22] @ '']'') doc of
          Inl e \<Rightarrow> Inl e
        | Inr None \<Rightarrow> Inr None
        | Inr (Some i) \<Rightarrow> if i < length doc then Inr (Some i) else Inr None)"

definition emit :: "effect \<Rightarrow> world \<Rightarrow> world" where
  "emit e w = w\<lparr>trace := trace w @ [e]\<rparr>"

section \<open>Tab controller\<close>

definition trackEvent :: "world \<Rightarrow> string \<Rightarrow> string \<Rightarrow> string \<Rightarrow> world" where
  "trackEvent w category action label = emit (ConsoleLog [''Event:'', category, action, label]) w"

definition collapsePanel :: "host \<Rightarrow> string \<Rightarrow> node list \<Rightarrow> error + node list" where
  \<comment> \<open>the body of the loop of \<open>collapseAllPanels\<close>, with its two guards; the two
      lookups come before the writes, so a selector that raises leaves the page as it is\<close>
  "collapsePanel h panelId doc =
     (let panel = getElementById doc panelId
      in case querySelectorAttr h [] (\<lambda>n. True) ''aria-controls'' panelId doc of
           Inl e \<Rightarrow> Inl e
         | Inr button \<Rightarrow>
             let doc1 = (case panel of None \<Rightarrow> doc
                         | Some p \<Rightarrow> update_node p (\<lambda>n. n\<lparr>hidden := True\<rparr>) doc)
             in Inr (case button of None \<Rightarrow> doc1
                     | Some b \<Rightarrow> update_node b (setAttribute ''aria-expanded'' ''false'') doc1))"

fun collapseEach :: "host \<Rightarrow> string list \<Rightarrow> node list \<Rightarrow> node list \<times> error option" where
  \<comment> \<open>the loop of \<open>collapseAllPanels\<close>: it stops where its body raises, and the page
      keeps what the earlier rounds wrote\<close>
  "collapseEach h [] doc = (doc, None)"
| "collapseEach h (panelId # rest) doc =
     (case collapsePanel h panelId doc of
        Inl e \<Rightarrow> (doc, Some e)
      | Inr doc' \<Rightarrow> collapseEach h rest doc')"

definition collapseAllPanels :: "world \<Rightarrow> world \<times> error option" where
  \<comment> \<open>the world after the call, and the error if the call raised; the list is emptied
      after the loop only\<close>
  "collapseAllPanels w =
     (case collapseEach (host w) (expandedPanels (st w)) (document w) of
        (doc, Some e) \<Rightarrow> (w\<lparr>document := doc\<rparr>, Some e)
      | (doc, None) \<Rightarrow> (w\<lparr>document := doc, st := (st w)\<lparr>expandedPanels := []\<rparr>\<rparr>, None))"

definition highlightRelevantSteps :: "world \<Rightarrow> string \<Rightarrow> world" where
  "highlightRelevantSteps w tabId =
     (let d1 = forEachNode (has_class ''timeline-item'') (\<lambda>item. item\<lparr>opacity := ''1''\<rparr>)
                 (document w);
          d2 = (if tabId = ''resident'' then
                  forEachNode (has_class ''timeline-item'')
                    (\<lambda>item. if \<not> has_class ''has-influence'' item
                            then item\<lparr>opacity := ''0.7''\<rparr> else item) d1
                else if tabId = ''developer'' then
                  forEachNode (has_class ''timeline-item'') (\<lambda>item. item\<lparr>opacity := ''1''\<rparr>) d1
                else d1)
      in w\<lparr>document := d2\<rparr>)"

definition originalSwitchTab :: "world \<Rightarrow> string \<Rightarrow> world \<times> error option" where
  "originalSwitchTab w tabId =
     (let w1 = w\<lparr>st := (st w)\<lparr>activeTab := tabId\<rparr>\<rparr>;
          w2 = w1\<lparr>document :=
                 forEachNode (has_class ''tab'')
                   (\<lambda>tab. let isActive = (getAttribute ''data-tab'' tab = Some tabId)
                          in setAttribute ''aria-selected'' (string_of_bool isActive)
                               (classList_toggle ''active'' isActive tab))
                   (document w1)\<rparr>;
          w3 = w2\<lparr>document :=
                 forEachNode (has_class ''tab-content'')
                   (\<lambda>panel. let isActive = (elem_id panel = tabId @ ''-panel'')
                            in (classList_toggle ''active'' isActive panel)\<lparr>hidden := \<not> isActive\<rparr>)
                   (document w2)\<rparr>
      in case collapseAllPanels w3 of
           (w4, Some e) \<Rightarrow> (w4, Some e)
         | (w4, None) \<Rightarrow> (highlightRelevantSteps w4 tabId, None))"

definition switchTab :: "world \<Rightarrow> string \<Rightarrow> world \<times> error option" where
  \<comment> \<open>the function as exported: the tracking wrapper around the original\<close>
  "switchTab w tabId = originalSwitchTab (trackEvent w ''Navigation'' ''Tab Switch'' tabId) tabId"

section \<open>Timeline and detail panels\<close>

definition toggleDetailPanel :: "world \<Rightarrow> string \<Rightarrow> nat \<Rightarrow> error + world" where
  \<comment> \<open>\<open>button\<close> that is no element of the page stands for a missing argument; reading
      its attribute raises, as does writing \<open>hidden\<close> on a panel that was not found\<close>
  "toggleDetailPanel w panelId button =
     (let doc = document w;
          panel = getElementById doc panelId
      in if \<not> button < length doc then Inl TypeError
         else
           let isExpanded = (getAttribute ''aria-expanded'' (doc ! button) = Some ''true'')
           in case panel of
                None \<Rightarrow> Inl TypeError
              | Some p \<Rightarrow>
                  if isExpanded then
                    Inr (w\<lparr>document :=
                             update_node button (setAttribute ''aria-expanded'' ''false'')
                               (update_node p (\<lambda>n. n\<lparr>hidden := True\<rparr>) doc),
                           st := (st w)\<lparr>expandedPanels :=
                                   filter (\<lambda>i. i \<noteq> panelId) (expandedPanels (st w))\<rparr>\<rparr>)
                  else
                    Inr (emit (SetTimeout (ScrollIntoViewLater p) 100)
                          (w\<lparr>document :=
                               update_node button (setAttribute ''aria-expanded'' ''true'')
                                 (update_node p (\<lambda>n. n\<lparr>hidden := False\<rparr>) doc),
                             st := (st w)\<lparr>expandedPanels :=
                                     expandedPanels (st w) @ [panelId]\<rparr>\<rparr>)))"

definition expandButtonListener :: "world \<Rightarrow> nat \<Rightarrow> error + world" where
  \<comment> \<open>the click listener that \<open>initializeTimeline\<close> puts on every expand button; a button
      without \<open>aria-controls\<close> passes null, which the id lookup reads as the text null\<close>
  "expandButtonListener w button =
     (case getAttribute ''aria-controls'' (document w ! button) of
        Some panelId \<Rightarrow> toggleDetailPanel w panelId button
      | None \<Rightarrow> toggleDetailPanel w ''null'' button)"

text \<open>
  \<open>element.click()\<close> does nothing on a disabled form control. Otherwise it sends a click
  event to the element and then up through its ancestors, running every listener on the
  way, and then lets the element do what a click on it does by itself (a link is followed,
  a form is submitted). The script puts click listeners on the elements that have the class
  \<open>tab\<close> or \<open>btn-expand\<close> when the page is loaded, and, as far as its later
  initializers get, on the elements with the ids \<open>openDecisionTree\<close>,
  \<open>decisionTreeModal\<close>, \<open>glossaryToggle\<close> and \<open>searchBtn\<close> and on elements
  with the classes \<open>modal-close\<close>, \<open>btn-decision\<close> and \<open>glossary-close\<close>; the
  page may add handlers of its own in \<open>onclick\<close> attributes. The script never changes
  these classes and ids.

  The model follows a click where it runs one listener only: the target is a
  \<open>button\<close> element with the class \<open>btn-expand\<close>, it is enabled and owned by no
  form, and neither it nor any of its ancestors carries another click listener. What a
  listener raises is reported by the host and does not reach the caller of \<open>click\<close>.
  Every other click is answered by the host.
\<close>

fun path_within :: "node list \<Rightarrow> nat \<Rightarrow> nat \<Rightarrow> nat list" where
  \<comment> \<open>the ancestors of \<open>i\<close>, nearest first, at most \<open>k\<close> of them\<close>
  "path_within doc 0 i = []"
| "path_within doc (Suc k) i =
     (if i < length doc then
        (case parentNode (doc ! i) of None \<Rightarrow> []
         | Some p \<Rightarrow> p # path_within doc k p)
      else [])"

definition ancestors :: "node list \<Rightarrow> nat \<Rightarrow> nat list" where
  "ancestors doc i = path_within doc (length doc) i"

definition other_listener :: "node \<Rightarrow> bool" where
  \<comment> \<open>the element may carry a click listener other than that of an expand button\<close>
  "other_listener n =
     (has_class ''tab'' n \<or> has_class ''modal-close'' n \<or> has_class ''btn-decision'' n \<or>
      has_class ''glossary-close'' n \<or>
      elem_id n \<in> {''openDecisionTree'', ''decisionTreeModal'', ''glossaryToggle'', ''searchBtn''} \<or>
      hasAttribute ''onclick'' n)"

definition form_control :: "node \<Rightarrow> bool" where
  "form_control n =
     (tagName n \<in> {''button'', ''input'', ''select'', ''textarea'', ''fieldset'', ''optgroup'',
                   ''option''})"

definition quiet_ancestor :: "node list \<Rightarrow> nat \<Rightarrow> bool" where
  \<comment> \<open>an ancestor that adds nothing to a click below it: it is an element of the page, it
      has no click listener, and it is neither a form nor a field set\<close>
  "quiet_ancestor doc a =
     (a < length doc \<and> \<not> other_listener (doc ! a) \<and> \<not> has_class ''btn-expand'' (doc ! a) \<and>
      tagName (doc ! a) \<notin> {''form'', ''fieldset''})"

definition lone_expand_button :: "node list \<Rightarrow> nat \<Rightarrow> bool" where
  \<comment> \<open>an enabled expand button whose click runs its own listener and nothing else\<close>
  "lone_expand_button doc i =
     (i < length doc \<and> tagName (doc ! i) = ''button'' \<and> has_class ''btn-expand'' (doc ! i) \<and>
      \<not> other_listener (doc ! i) \<and>
      list_all (\<lambda>k. \<not> hasAttribute k (doc ! i))
        [''disabled'', ''form'', ''popovertarget'', ''commandfor''] \<and>
      list_all (quiet_ancestor doc) (ancestors doc i))"

definition click :: "world \<Rightarrow> nat \<Rightarrow> error + world" where
  "click w i =
     (let doc = document w in
      if i < length doc \<and> form_control (doc ! i) \<and> hasAttribute ''disabled'' (doc ! i)
      then Inr w
      else if lone_expand_button doc i then
        (case expandButtonListener w i of
           Inl e \<Rightarrow> Inr (emit (UncaughtError e) w)
         | Inr w' \<Rightarrow> Inr w')
      else
        (case dispatchClick (host w) i (doc, st w, bodyOverflow w, localStorage w, trace w) of
           Inl e \<Rightarrow> Inl e
         | Inr (d, s, b, l, t) \<Rightarrow>
             Inr (w\<lparr>document := d, st := s, bodyOverflow := b, localStorage := l, trace := t\<rparr>)))"

section \<open>Decision tree\<close>

definition showDecisionStep :: "world \<Rightarrow> jsnum \<Rightarrow> world" where
  \<comment> \<open>the text of a number is plain, so the selector is the comparison with that text\<close>
  "showDecisionStep w stepNumber =
     (let w1 = w\<lparr>st := (st w)\<lparr>decisionTreeStep := stepNumber\<rparr>\<rparr>;
          d1 = forEachNode (has_class ''decision-step'') (classList_remove ''active'') (document w1);
          d2 = forEachNode (has_class ''decision-result'') (classList_remove ''active'') d1;
          currentStep =
            querySelector
              (\<lambda>n. has_class ''decision-step'' n \<and>
                    getAttribute ''data-step'' n = Some (string_of_jsnum (host w) stepNumber)) d2
      in w1\<lparr>document :=
              (case currentStep of None \<Rightarrow> d2
               | Some i \<Rightarrow> update_node i (classList_add ''active'') d2)\<rparr>)"

definition showDecisionResult :: "world \<Rightarrow> string \<Rightarrow> world \<times> error option" where
  \<comment> \<open>the world after the call, and the error if the call raised: the selector is built
      from the argument and is evaluated after the two loops have run\<close>
  "showDecisionResult w resultType =
     (let d1 = forEachNode (has_class ''decision-step'') (classList_remove ''active'') (document w);
          d2 = forEachNode (has_class ''decision-result'') (classList_remove ''active'') d1
      in case querySelectorAttr (host w) ''.decision-result'' (has_class ''decision-result'')
                ''data-result'' resultType d2 of
           Inl e \<Rightarrow> (w\<lparr>document := d2\<rparr>, Some e)
         | Inr resultElement \<Rightarrow>
             (w\<lparr>document :=
                  (case resultElement of None \<Rightarrow> d2
                   | Some i \<Rightarrow> update_node i (classList_add ''active'') d2)\<rparr>, None))"

definition openDecisionTreeModal :: "world \<Rightarrow> error + world" where
  "openDecisionTreeModal w =
     (case getElementById (document w) ''decisionTreeModal'' of
        None \<Rightarrow> Inl TypeError
      | Some modal \<Rightarrow>
          let w1 = w\<lparr>document := update_node modal (\<lambda>n. n\<lparr>hidden := False\<rparr>) (document w),
                     bodyOverflow := ''hidden''\<rparr>;
              w2 = w1\<lparr>st := (st w1)\<lparr>decisionTreeStep := Num 1\<rparr>\<rparr>;
              w3 = showDecisionStep w2 (Num 1)
          in Inr (case querySelectorIn (document w3) modal (\<lambda>n. tagName n = ''button'') of
                    None \<Rightarrow> w3
                  | Some b \<Rightarrow> emit (Focus b) w3))"

definition handleDecisionTreeChoice :: "world \<Rightarrow> nat \<Rightarrow> error + world" where
  "handleDecisionTreeChoice w button =
     (if \<not> button < length (document w) then Inl TypeError
      else
        let nextStep = getAttribute ''data-next'' (document w ! button);
            result = getAttribute ''data-result'' (document w ! button);
            otherwise =
              (case result of
                 Some r \<Rightarrow>
                   if r \<noteq> [] then
                     (case showDecisionResult w r of
                        (w', Some e) \<Rightarrow> Inl e
                      | (w', None) \<Rightarrow> Inr w')
                   else Inr w
               | None \<Rightarrow> Inr w)
        in case nextStep of
             Some nx \<Rightarrow> if nx \<noteq> [] then Inr (showDecisionStep w (parseInt nx)) else otherwise
           | None \<Rightarrow> otherwise)"

definition goBackDecision :: "world \<Rightarrow> world" where
  \<comment> \<open>the comparison with 1 is that of the integers; the subtraction is exact up to
      \<open>2\<^sup>5\<^sup>3\<close> and the host's beyond\<close>
  "goBackDecision w =
     (case decisionTreeStep (st w) of
        Num n \<Rightarrow>
          if n > 1 then
            showDecisionStep w (Num (if exact_int n then n - 1 else minusOne (host w) n))
          else w
      | NaN \<Rightarrow> w)"




definition decision_node :: "node \<Rightarrow> bool" where
  \<comment> \<open>a question or a result node of the decision tree\<close>
  "decision_node n = (has_class ''decision-step'' n \<or> has_class ''decision-result'' n)"

definition visible_decision_nodes :: "node list \<Rightarrow> nat list" where
  "visible_decision_nodes doc =
     querySelectorAll (\<lambda>n. decision_node n \<and> has_class ''active'' n) doc"

section \<open>Glossary\<close>

definition filterGlossary :: "world \<Rightarrow> string \<Rightarrow> world" where
  "filterGlossary w searchTerm =
     (let term = trim (toLowerCase searchTerm)
      in w\<lparr>document :=
             forEachNode (has_class ''glossary-item'')
               (\<lambda>item.
                  let searchableText =
                        (case getAttribute ''data-term'' item of
                           Some t \<Rightarrow> if t \<noteq> [] then t else toLowerCase (textContent item)
                         | None \<Rightarrow> toLowerCase (textContent item));
                      matches = str_includes searchableText term
                  in item\<lparr>hidden := (term \<noteq> [] \<and> \<not> matches)\<rparr>)
               (document w)\<rparr>)"

section \<open>Search\<close>

datatype match_type = Timeline | Detail

record search_match =
  mtype :: match_type
  element :: "nat option"  \<comment> \<open>\<open>closest\<close> may give null\<close>
  title :: string

definition matchTimelineCard :: "node list \<Rightarrow> string \<Rightarrow> nat \<Rightarrow> error + search_match option" where
  \<comment> \<open>reading the text of a heading that is not there raises\<close>
  "matchTimelineCard doc searchTerm tcard =
     (let text = toLowerCase (textContent (doc ! tcard))
      in if str_includes text searchTerm then
           (case querySelectorIn doc tcard (\<lambda>n. tagName n = ''h4'') of
              None \<Rightarrow> Inl TypeError
            | Some h \<Rightarrow>
                Inr (Some \<lparr>mtype = Timeline,
                           element = closest doc tcard (has_class ''timeline-item''),
                           title = textContent (doc ! h)\<rparr>))
         else Inr None)"

definition matchDetailPanel :: "node list \<Rightarrow> string \<Rightarrow> nat \<Rightarrow> error + search_match option" where
  "matchDetailPanel doc searchTerm panel =
     (let text = toLowerCase (textContent (doc ! panel))
      in if str_includes text searchTerm then
           (case querySelectorIn doc panel (\<lambda>n. tagName n = ''h3'') of
              None \<Rightarrow> Inl TypeError
            | Some h \<Rightarrow>
                Inr (Some \<lparr>mtype = Detail, element = Some panel,
                           title = textContent (doc ! h)\<rparr>))
         else Inr None)"

fun collectMatches ::
  "(nat \<Rightarrow> error + search_match option) \<Rightarrow> nat list \<Rightarrow> search_match list
     \<Rightarrow> error + search_match list" where
  \<comment> \<open>a \<open>forEach\<close> that pushes onto \<open>matches\<close> and stops where its body raises\<close>
  "collectMatches f [] acc = Inr acc"
| "collectMatches f (i # rest) acc =
     (case f i of
        Inl e \<Rightarrow> Inl e
      | Inr None \<Rightarrow> collectMatches f rest acc
      | Inr (Some m) \<Rightarrow> collectMatches f rest (acc @ [m]))"

definition searchMatches :: "node list \<Rightarrow> string \<Rightarrow> error + search_match list" where
  \<comment> \<open>the match list that \<open>performSearch\<close> builds: timeline cards first, then panels\<close>
  "searchMatches doc searchTerm =
     (case collectMatches (matchTimelineCard doc searchTerm)
             (querySelectorAll (has_class ''timeline-card'') doc) [] of
        Inl e \<Rightarrow> Inl e
      | Inr ms \<Rightarrow>
          collectMatches (matchDetailPanel doc searchTerm)
            (querySelectorAll (has_class ''detail-panel'') doc) ms)"

definition showNotification :: "world \<Rightarrow> string \<Rightarrow> string \<Rightarrow> world" where
  \<comment> \<open>the toast, which no query of the script selects, and the timer that removes it\<close>
  "showNotification w message type =
     emit (SetTimeout (RemoveNotification message) 5000) (emit (Notification message type) w)"

definition highlightMatch :: "world \<Rightarrow> search_match \<Rightarrow> error + world" where
  "highlightMatch w m =
     (case element m of
        None \<Rightarrow> Inl TypeError
      | Some e \<Rightarrow>
          let w1 = w\<lparr>document := update_node e (classList_add ''search-highlight'') (document w)\<rparr>
          in if mtype m = Detail then
               (let panelId = elem_id (document w1 ! e)
                in case querySelectorAttr (host w1) [] (\<lambda>n. True) ''aria-controls'' panelId
                          (document w1) of
                     Inl err \<Rightarrow> Inl err
                   | Inr None \<Rightarrow> Inr w1
                   | Inr (Some b) \<Rightarrow>
                       if getAttribute ''aria-expanded'' (document w1 ! b) = Some ''false''
                       then click w1 b else Inr w1)
             else Inr w1)"

fun highlightAll :: "world \<Rightarrow> search_match list \<Rightarrow> error + world" where
  "highlightAll w [] = Inr w"
| "highlightAll w (m # ms) =
     (case highlightMatch w m of Inl e \<Rightarrow> Inl e | Inr w' \<Rightarrow> highlightAll w' ms)"

definition highlightSearchResults :: "world \<Rightarrow> search_match list \<Rightarrow> error + world" where
  "highlightSearchResults w matches =
     (let w0 = w\<lparr>document :=
                 forEachNode (has_class ''search-highlight'') (classList_remove ''search-highlight'')
                   (document w)\<rparr>
      in case highlightAll w0 matches of
           Inl e \<Rightarrow> Inl e
         | Inr w1 \<Rightarrow> Inr (emit (SetTimeout ClearHighlights 5000) w1))"

definition performSearch :: "world \<Rightarrow> string \<Rightarrow> error + world" where
  "performSearch w query =
     (let searchTerm = trim (toLowerCase query)
      in if searchTerm = [] then Inr (emit (Alert ''Please enter a search term'') w)
         else
           case searchMatches (document w) searchTerm of
             Inl e \<Rightarrow> Inl e
           | Inr matches \<Rightarrow>
               (case matches of
                  [] \<Rightarrow>
                    Inr (showNotification w
                          (''No results found for '' @ [CHR 0x22] @ searchTerm @ [CHR 0x22])
                          ''warning'')
                | first # _ \<Rightarrow>
                    (case highlightSearchResults w matches of
                       Inl e \<Rightarrow> Inl e
                     | Inr w1 \<Rightarrow>
                         (case element first of
                            None \<Rightarrow> Inl TypeError
                          | Some e \<Rightarrow>
                              Inr (showNotification (emit (ScrollIntoView e Center) w1)
                                    (''Found '' @ string_of_nat (length matches)
                                       @ '' result(s) for '' @ [CHR 0x22] @ searchTerm
                                       @ [CHR 0x22])
                                    ''info'')))))"

section \<open>Persistence\<close>

text \<open>
  The store behind \<open>localStorage\<close> belongs to the browser: it gets and sets a named
  string blob and may fail. Reading or writing raises when the store is not available, and
  writing raises when the blob does not fit. The library functions \<open>JSON.stringify\<close>,
  \<open>JSON.parse\<close> and \<open>Object.assign\<close> are parameters of the two operations; parsing
  may raise.
\<close>

definition getItem :: "storage \<Rightarrow> string \<Rightarrow> error + string option" where
  "getItem s k = (if available s then Inr (items s k) else Inl SecurityError)"

definition setItem :: "storage \<Rightarrow> string \<Rightarrow> string \<Rightarrow> error + storage" where
  "setItem s k v =
     (if \<not> available s then Inl SecurityError
      else if quota s < length k + length v then Inl QuotaExceededError
      else Inr (s\<lparr>items := (items s)(k \<mapsto> v)\<rparr>))"

definition try_catch :: "error + world \<Rightarrow> (error \<Rightarrow> world) \<Rightarrow> error + world" where
  \<comment> \<open>\<open>try { body } catch (e) { handler }\<close> with a handler that does not raise\<close>
  "try_catch body handler = (case body of Inl e \<Rightarrow> Inr (handler e) | Inr w \<Rightarrow> Inr w)"

definition saveState :: "(state \<Rightarrow> string) \<Rightarrow> world \<Rightarrow> error + world" where
  "saveState stringify w =
     try_catch
       (case setItem (localStorage w) ''rezoningGuideState'' (stringify (st w)) of
          Inl e \<Rightarrow> Inl e
        | Inr s \<Rightarrow> Inr (w\<lparr>localStorage := s\<rparr>))
       (\<lambda>e. emit (ConsoleWarn ''Could not save state to localStorage:'' e) w)"

definition loadState ::
  "(string \<Rightarrow> error + 'j) \<Rightarrow> (state \<Rightarrow> 'j \<Rightarrow> state) \<Rightarrow> world \<Rightarrow> error + world" where
  "loadState parse assign w =
     try_catch
       (case getItem (localStorage w) ''rezoningGuideState'' of
          Inl e \<Rightarrow> Inl e
        | Inr saved \<Rightarrow>
            (case saved of
               None \<Rightarrow> Inr w
             | Some blob \<Rightarrow>
                 if blob = [] then Inr w
                 else (case parse blob of
                         Inl e \<Rightarrow> Inl e
                       | Inr parsed \<Rightarrow> Inr (w\<lparr>st := assign (st w) parsed\<rparr>))))
       (\<lambda>e. emit (ConsoleWarn ''Could not load state from localStorage:'' e) w)"

section \<open>Notions used in the properties\<close>

definition deactivated :: "node list \<Rightarrow> node list" where
  \<comment> \<open>the page after the two loops that take \<open>active\<close> from questions and results\<close>
  "deactivated doc =
     forEachNode (has_class ''decision-result'') (classList_remove ''active'')
       (forEachNode (has_class ''decision-step'') (classList_remove ''active'') doc)"

definition step_selector :: "host \<Rightarrow> jsnum \<Rightarrow> node \<Rightarrow> bool" where
  \<comment> \<open>a question node whose step identity is the text of the number \<open>k\<close>\<close>
  "step_selector h k n =
     (has_class ''decision-step'' n \<and> getAttribute ''data-step'' n = Some (string_of_jsnum h k))"


definition searchableText :: "node \<Rightarrow> string" where
  \<comment> \<open>the term tag when there is one and it is not empty, else the lowercased text\<close>
  "searchableText item =
     (case getAttribute ''data-term'' item of
        Some t \<Rightarrow> if t \<noteq> [] then t else toLowerCase (textContent item)
      | None \<Rightarrow> toLowerCase (textContent item))"

definition toggle_twice :: "world \<Rightarrow> string \<Rightarrow> nat \<Rightarrow> error + world" where
  \<comment> \<open>two calls of \<open>toggleDetailPanel\<close> in succession\<close>
  "toggle_twice w panelId button =
     (case toggleDetailPanel w panelId button of
        Inl e \<Rightarrow> Inl e
      | Inr w1 \<Rightarrow> toggleDetailPanel w1 panelId button)"

definition tab_for :: "string \<Rightarrow> node \<Rightarrow> bool" where
  \<comment> \<open>a tab control whose tab identity is \<open>T\<close>\<close>
  "tab_for T n = (has_class ''tab'' n \<and> getAttribute ''data-tab'' n = Some T)"

definition tab_panel_for :: "string \<Rightarrow> node \<Rightarrow> bool" where
  \<comment> \<open>a tab panel whose id is \<open>T\<close> followed by \<open>-panel\<close>\<close>
  "tab_panel_for T n = (has_class ''tab-content'' n \<and> elem_id n = T @ ''-panel'')"

definition selected_tab :: "node \<Rightarrow> bool" where
  "selected_tab n = (has_class ''tab'' n \<and> getAttribute ''aria-selected'' n = Some ''true'')"

definition visible_tab_panel :: "node \<Rightarrow> bool" where
  "visible_tab_panel n = (has_class ''tab-content'' n \<and> \<not> hidden n)"

definition known_tab :: "node list \<Rightarrow> string \<Rightarrow> bool" where
  \<comment> \<open>the page has one tab control and one tab panel for \<open>T\<close>\<close>
  "known_tab doc T =
     (length (querySelectorAll (tab_for T) doc) = 1 \<and>
      length (querySelectorAll (tab_panel_for T) doc) = 1)"

definition mark_tabs :: "string \<Rightarrow> node list \<Rightarrow> node list" where
  \<comment> \<open>the first loop of \<open>switchTab\<close>\<close>
  "mark_tabs T doc =
     forEachNode (has_class ''tab'')
       (\<lambda>tab. setAttribute ''aria-selected'' (string_of_bool (getAttribute ''data-tab'' tab = Some T))
                (classList_toggle ''active'' (getAttribute ''data-tab'' tab = Some T) tab))
       doc"

definition show_tab_panel :: "string \<Rightarrow> node list \<Rightarrow> node list" where
  \<comment> \<open>the second loop of \<open>switchTab\<close>\<close>
  "show_tab_panel T doc =
     forEachNode (has_class ''tab-content'')
       (\<lambda>panel. (classList_toggle ''active'' (elem_id panel = T @ ''-panel'') panel)
                   \<lparr>hidden := \<not> (elem_id panel = T @ ''-panel'')\<rparr>)
       doc"

definition tabs_marked :: "world \<Rightarrow> string \<Rightarrow> world" where
  \<comment> \<open>the world of \<open>switchTab\<close> after its two loops, before the panels are collapsed\<close>
  "tabs_marked w T =
     w\<lparr>trace := trace w @ [ConsoleLog [''Event:'', ''Navigation'', ''Tab Switch'', T]],
       st := (st w)\<lparr>activeTab := T\<rparr>,
       document := show_tab_panel T (mark_tabs T (document w))\<rparr>"





definition highlighted :: "node list \<Rightarrow> nat \<Rightarrow> node list" where
  \<comment> \<open>the page after old highlight markers were cleared and node \<open>p\<close> was marked\<close>
  "highlighted doc p =
     update_node p (classList_add ''search-highlight'')
       (forEachNode (has_class ''search-highlight'') (classList_remove ''search-highlight'') doc)"

section \<open>Example pages\<close>

text \<open>Small pages and worlds on which the properties below are run.\<close>

definition mk_node ::
  "string \<Rightarrow> string \<Rightarrow> string list \<Rightarrow> (string \<times> string) list \<Rightarrow> bool \<Rightarrow> string
     \<Rightarrow> nat option \<Rightarrow> node" where
  "mk_node tg i cs as h txt p =
     \<lparr>tagName = tg, elem_id = i, classList = cs, attributes = map_of as, hidden = h,
      opacity = ''1'', textContent = txt, parentNode = p\<rparr>"

definition strict_host :: host where
  \<comment> \<open>a host that raises on every selector text it is asked about and does nothing on a
      click that it answers; for numbers it answers as a browser does from
      \<open>2\<^sup>1\<^sup>0\<^sup>2\<^sup>4\<close> on, where every number is infinite\<close>
  "strict_host =
     \<lparr>selectorQuery = (\<lambda>sel doc. Inl SyntaxError), numberToString = (\<lambda>i. ''Infinity''),
      minusOne = (\<lambda>i. i), dispatchClick = (\<lambda>i s. Inr s)\<rparr>"

definition mk_world :: "node list \<Rightarrow> state \<Rightarrow> world" where
  "mk_world doc s =
     \<lparr>document = doc, st = s, bodyOverflow = [],
      localStorage = \<lparr>available = True, items = Map.empty, quota = 5000000\<rparr>, trace = [],
      host = strict_host\<rparr>"

definition search_page :: "node list" where
  "search_page =
     [mk_node ''div'' [] [''timeline-item''] [] False ''Enquiry Overview Public hearing'' None,
      mk_node ''div'' [] [''timeline-card''] [] False ''Enquiry'' (Some 0),
      mk_node ''h4'' [] [] [] False ''Enquiry'' (Some 1),
      mk_node ''button'' [] [''btn-expand'']
        [(''aria-controls'', ''step1-details''), (''aria-expanded'', ''false'')] False [] (Some 1),
      mk_node ''div'' ''step1-details'' [''detail-panel''] [] True ''Overview Public hearing''
        (Some 0),
      mk_node ''h3'' [] [] [] False ''Overview'' (Some 4)]"








definition private_world :: world where
  \<comment> \<open>a browser that refuses access to the store\<close>
  "private_world =
     \<lparr>document = [], st = initial_state, bodyOverflow = [],
      localStorage = \<lparr>available = False, items = Map.empty, quota = 0\<rparr>, trace = [],
      host = strict_host\<rparr>"

definition broken_blob_world :: world where
  \<comment> \<open>a store whose saved blob does not parse\<close>
  "broken_blob_world =
     \<lparr>document = [], st = initial_state, bodyOverflow = [],
      localStorage =
        \<lparr>available = True, items = [''rezoningGuideState'' \<mapsto> ''{oops''], quota = 100\<rparr>,
      trace = [], host = strict_host\<rparr>"

definition choice_page :: "node list" where
  "choice_page =
     [mk_node ''div'' ''decisionTreeModal'' [] [] False [] None,
      mk_node ''div'' [] [''decision-step'', ''active''] [(''data-step'', ''1'')] False [] (Some 0),
      mk_node ''button'' [] [''btn-decision'']
        [(''data-next'', ''2''), (''data-result'', ''rezoning-required'')] False [] (Some 1),
      mk_node ''button'' [] [''btn-decision''] [] False [] (Some 1),
      mk_node ''div'' [] [''decision-step''] [(''data-step'', ''2'')] False [] (Some 0),
      mk_node ''div'' [] [''decision-result''] [(''data-result'', ''rezoning-required'')] False []
        (Some 0)]"

definition second_step_world :: world where
  \<comment> \<open>the choice page after the second question was shown\<close>
  "second_step_world = showDecisionStep (mk_world choice_page initial_state) (Num 2)"

definition fourth_step_world :: world where
  \<comment> \<open>the choice page after a step was asked for that the page does not have\<close>
  "fourth_step_world = showDecisionStep (mk_world choice_page initial_state) (Num 4)"

definition huge_step_world :: world where
  \<comment> \<open>a step number of the size where a browser no longer tells numbers apart\<close>
  "huge_step_world = mk_world choice_page (initial_state\<lparr>decisionTreeStep := Num (2 ^ 1024)\<rparr>)"



definition glossary_page :: "node list" where
  "glossary_page =
     [mk_node ''div'' [] [''glossary-item''] [(''data-term'', ''FSR'')] False
        ''FSR Floor Space Ratio'' None,
      mk_node ''div'' [] [''glossary-item''] [] False ''FSR Floor Space Ratio'' None,
      mk_node ''div'' [] [''glossary-item''] [(''data-term'', ''rezoning'')] False
        ''Rezoning Changing how land may be used'' None,
      mk_node ''div'' [] [''glossary-item''] [(''data-term'', [])] False
        ''CD-1 Comprehensive development district'' None]"

definition two_trigger_page :: "node list" where
  \<comment> \<open>a panel with an expand button in its card and a second one inside the panel\<close>
  "two_trigger_page =
     [mk_node ''button'' [] [''btn-expand'']
        [(''aria-controls'', ''step1-details''), (''aria-expanded'', ''false'')] False [] None,
      mk_node ''div'' ''step1-details'' [''detail-panel''] [] True ''Overview'' None,
      mk_node ''button'' [] [''btn-expand'']
        [(''aria-controls'', ''step1-details''), (''aria-expanded'', ''false'')] False []
        (Some 1)]"

definition two_trigger_open :: world where
  \<comment> \<open>the two-trigger page after its first button was used once\<close>
  "two_trigger_open =
     projr (toggleDetailPanel (mk_world two_trigger_page initial_state) ''step1-details'' 0)"

definition two_trigger_after :: world where
  \<comment> \<open>and after the second button was then used twice\<close>
  "two_trigger_after = projr (toggle_twice two_trigger_open ''step1-details'' 2)"

definition tabs_page :: "node list" where
  "tabs_page =
     [mk_node ''button'' [] [''tab'', ''active'']
        [(''data-tab'', ''resident''), (''aria-selected'', ''true'')] False ''Resident'' None,
      mk_node ''button'' [] [''tab'']
        [(''data-tab'', ''developer''), (''aria-selected'', ''false'')] False ''Developer'' None,
      mk_node ''div'' ''resident-panel'' [''tab-content'', ''active''] [] False [] None,
      mk_node ''div'' ''developer-panel'' [''tab-content''] [] True [] None,
      mk_node ''div'' [] [''timeline-item'', ''has-influence''] [] False [] None,
      mk_node ''button'' [] [''btn-expand'']
        [(''aria-controls'', ''step1-details''), (''aria-expanded'', ''true'')] False [] (Some 4),
      mk_node ''div'' ''step1-details'' [''detail-panel''] [] False ''Overview'' (Some 4),
      mk_node ''div'' [] [''timeline-item''] [] False [] None,
      mk_node ''button'' [] [''btn-expand'']
        [(''aria-controls'', ''step2-details''), (''aria-expanded'', ''false'')] False [] (Some 7),
      mk_node ''div'' ''step2-details'' [''detail-panel''] [] True ''Review'' (Some 7)]"

definition tabs_world :: world where
  "tabs_world = mk_world tabs_page (initial_state\<lparr>expandedPanels := [''step1-details'']\<rparr>)"

definition tab_button_page :: "node list" where
  \<comment> \<open>the tabs page with one more expand button, which controls a tab panel\<close>
  "tab_button_page =
     tabs_page @
     [mk_node ''button'' [] [''btn-expand'']
        [(''aria-controls'', ''developer-panel''), (''aria-expanded'', ''false'')] False [] None]"

definition tab_button_world :: world where
  "tab_button_world =
     mk_world tab_button_page (initial_state\<lparr>expandedPanels := [''step1-details'']\<rparr>)"

definition tab_listed_world :: world where
  \<comment> \<open>after a click on that button\<close>
  "tab_listed_world = projr (click tab_button_world 10)"

definition quoted_id :: string where
  \<comment> \<open>an id with a double quote in it\<close>
  "quoted_id = [CHR ''n'', CHR ''o'', CHR ''t'', CHR ''e'', CHR 0x22, CHR ''s'']"

definition quoted_id_page :: "node list" where
  \<comment> \<open>two tabs with their panels, and a detail panel with a quoted id and its button\<close>
  "quoted_id_page =
     [mk_node ''button'' [] [''tab'', ''active'']
        [(''data-tab'', ''resident''), (''aria-selected'', ''true'')] False ''Resident'' None,
      mk_node ''button'' [] [''tab'']
        [(''data-tab'', ''developer''), (''aria-selected'', ''false'')] False ''Developer'' None,
      mk_node ''div'' ''resident-panel'' [''tab-content'', ''active''] [] False [] None,
      mk_node ''div'' ''developer-panel'' [''tab-content''] [] True [] None,
      mk_node ''button'' [] [''btn-expand'']
        [(''aria-controls'', quoted_id), (''aria-expanded'', ''false'')] False [] None,
      mk_node ''div'' quoted_id [''detail-panel''] [] True ''Notes'' None]"

definition quoted_id_world :: world where
  \<comment> \<open>after a click on the expand button of that panel\<close>
  "quoted_id_world = projr (click (mk_world quoted_id_page initial_state) 4)"

definition quoted_id_page_open :: "node list" where
  "quoted_id_page_open =
     [mk_node ''button'' [] [''tab'', ''active'']
        [(''data-tab'', ''resident''), (''aria-selected'', ''true'')] False ''Resident'' None,
      mk_node ''button'' [] [''tab'']
        [(''data-tab'', ''developer''), (''aria-selected'', ''false'')] False ''Developer'' None,
      mk_node ''div'' ''resident-panel'' [''tab-content'', ''active''] [] False [] None,
      mk_node ''div'' ''developer-panel'' [''tab-content''] [] True [] None,
      mk_node ''button'' [] [''btn-expand'']
        [(''aria-expanded'', ''true''), (''aria-controls'', quoted_id)] False [] None,
      mk_node ''div'' quoted_id [''detail-panel''] [] False ''Notes'' None]"

section \<open>Properties\<close>

subsection \<open>Library facts\<close>

lemma includes_iff: "str_includes s t \<longleftrightarrow> (\<exists>p q. s = p @ t @ q)"
proof (induction s)
  case Nil
  then show ?case by simp
next
  case (Cons c s)
  show ?case
  proof
    assume "str_includes (c # s) t"
    then consider "prefix t (c # s)" | "str_includes s t" by auto
    then show "\<exists>p q. c # s = p @ t @ q"
    proof cases
      case 1
      then obtain q where "c # s = t @ q" by (auto simp: prefix_def)
      then have "c # s = [] @ t @ q" by simp
      then show ?thesis by blast
    next
      case 2
      with Cons.IH obtain p q where "s = p @ t @ q" by blast
      then have "c # s = (c # p) @ t @ q" by simp
      then show ?thesis by blast
    qed
  next
    assume "\<exists>p q. c # s = p @ t @ q"
    then obtain p q where pq: "c # s = p @ t @ q" by blast
    show "str_includes (c # s) t"
    proof (cases p)
      case Nil
      with pq have "prefix t (c # s)" by (simp add: prefix_def)
      then show ?thesis by simp
    next
      case (Cons a p')
      with pq have "s = p' @ t @ q" by simp
      with Cons.IH have "str_includes s t" by blast
      then show ?thesis by simp
    qed
  qed
qed

lemma lower_char_space: "is_space c \<Longrightarrow> lower_char c = c"
  by (auto simp: is_space_def lower_char_def)

lemma toLowerCase_blank: "\<forall>c \<in> set s. is_space c \<Longrightarrow> toLowerCase s = s"
  by (induction s) (auto simp: toLowerCase_def lower_char_space)

lemma trim_blank:
  assumes "\<forall>c \<in> set s. is_space c"
  shows "trim s = []"
proof -
  from assms have d: "dropWhile is_space s = []" by simp
  show ?thesis unfolding trim_def d by simp
qed

lemmas js_eval =
  trim_def is_space_def toLowerCase_def lower_char_def char_of_def bit_0 parseInt_def
  is_digit_def digit_value_def string_of_int_def string_of_nat.simps string_of_jsnum_def
  exact_int_def

lemmas dom_eval =
  mk_node_def mk_world_def has_class_def classList_add_def classList_remove_def
  classList_toggle_def getAttribute_def setAttribute_def string_of_bool_def truthy_def
  querySelectorAll_def querySelector_def getElementById_def forEachNode_def update_node_def
  emit_def initial_state_def querySelectorAttr_def css_plain_def hasAttribute_def

subsection \<open>Search with a blank query\<close>

text \<open>
  Claim C8. A query that is empty or consists of white space only makes \<open>performSearch\<close>
  show the notice "Please enter a search term" and return at once: the resulting world is
  the starting world with that one alert added to the trace. The page (so no highlight
  marker set or cleared, no panel opened), the interaction state, the store and the rest of
  the trace (so no scrolling, no timer, no notification) are as before.
\<close>

theorem performSearch_blank_query:
  assumes "\<forall>c \<in> set query. is_space c"
  shows "performSearch w query =
           Inr (w\<lparr>trace := trace w @ [Alert ''Please enter a search term'']\<rparr>)"
  using assms by (simp add: performSearch_def toLowerCase_blank trim_blank emit_def)

theorem performSearch_blank_query_witness:
  "is_space (CHR '' '') \<and>
   performSearch (mk_world search_page initial_state) ''  '' =
     Inr ((mk_world search_page initial_state)\<lparr>trace := [Alert ''Please enter a search term'']\<rparr>)"
proof -
  have h: "\<forall>c \<in> set ''  ''. is_space c" by (simp add: is_space_def)
  show ?thesis
    using h performSearch_blank_query [OF h, of "mk_world search_page initial_state"]
    by (simp add: mk_world_def is_space_def)
qed

subsection \<open>Persistence\<close>

text \<open>
  Claim C9. \<open>saveState\<close> and \<open>loadState\<close> always return normally, whatever the store
  and the JSON functions do. When writing raises (the store is not available, or the blob
  does not fit), \<open>saveState\<close> returns the world unchanged but for one warning in the trace;
  when reading raises, or the saved blob does not parse, \<open>loadState\<close> does the same, so
  the in-memory state is the one from before.
\<close>

theorem persistence_never_raises:
  "(\<exists>w'. saveState stringify w = Inr w') \<and>
   (\<exists>w'. loadState parse assign w = Inr w') \<and>
   (\<forall>e. setItem (localStorage w) ''rezoningGuideState'' (stringify (st w)) = Inl e \<longrightarrow>
        saveState stringify w =
          Inr (w\<lparr>trace := trace w @ [ConsoleWarn ''Could not save state to localStorage:'' e]\<rparr>)) \<and>
   (\<forall>e. getItem (localStorage w) ''rezoningGuideState'' = Inl e \<longrightarrow>
        loadState parse assign w =
          Inr (w\<lparr>trace := trace w @ [ConsoleWarn ''Could not load state from localStorage:'' e]\<rparr>)) \<and>
   (\<forall>blob e. getItem (localStorage w) ''rezoningGuideState'' = Inr (Some blob) \<and> blob \<noteq> [] \<and>
        parse blob = Inl e \<longrightarrow>
        loadState parse assign w =
          Inr (w\<lparr>trace := trace w @ [ConsoleWarn ''Could not load state from localStorage:'' e]\<rparr>)) \<and>
   (\<not> available (localStorage w) \<longrightarrow>
        setItem (localStorage w) ''rezoningGuideState'' (stringify (st w)) = Inl SecurityError \<and>
        getItem (localStorage w) ''rezoningGuideState'' = Inl SecurityError) \<and>
   (available (localStorage w) \<and>
    quota (localStorage w) < length ''rezoningGuideState'' + length (stringify (st w)) \<longrightarrow>
        setItem (localStorage w) ''rezoningGuideState'' (stringify (st w)) = Inl QuotaExceededError)"
  by (auto simp: saveState_def loadState_def try_catch_def emit_def getItem_def setItem_def
           split: sum.splits option.splits)

theorem persistence_never_raises_witness:
  "saveState (\<lambda>s. ''{}'') private_world =
     Inr (private_world\<lparr>trace := [ConsoleWarn ''Could not save state to localStorage:'' SecurityError]\<rparr>) \<and>
   loadState (\<lambda>b. Inl SyntaxError) (\<lambda>s (p :: unit). s) broken_blob_world =
     Inr (broken_blob_world\<lparr>trace := [ConsoleWarn ''Could not load state from localStorage:'' SyntaxError]\<rparr>)"
  using persistence_never_raises [of "\<lambda>s. ''{}''" private_world "\<lambda>b. Inl SyntaxError" "\<lambda>s (p :: unit). s"]
        persistence_never_raises [of "\<lambda>s. ''{}''" broken_blob_world "\<lambda>b. Inl SyntaxError" "\<lambda>s (p :: unit). s"]
  by (simp add: private_world_def broken_blob_world_def getItem_def setItem_def)

subsection \<open>Choices of the decision tree\<close>

text \<open>
  Claim C10. For a choice button that carries both a next-step reference and a result
  reference, \<open>handleDecisionTreeChoice\<close> shows the step that \<open>parseInt\<close> reads from the
  next-step reference and does not look at the result reference. For a button that carries
  neither, the call returns the world it was given: no node and no field of the state
  changes. A reference counts as carried when the attribute is there and not empty, which
  is what the condition in the source tests.
\<close>

theorem handleDecisionTreeChoice_references:
  assumes "button < length (document w)"
  shows "(\<forall>nx r. getAttribute ''data-next'' (document w ! button) = Some nx \<and> nx \<noteq> [] \<and>
              getAttribute ''data-result'' (document w ! button) = Some r \<and> r \<noteq> [] \<longrightarrow>
            handleDecisionTreeChoice w button = Inr (showDecisionStep w (parseInt nx))) \<and>
         (\<not> truthy (getAttribute ''data-next'' (document w ! button)) \<and>
          \<not> truthy (getAttribute ''data-result'' (document w ! button)) \<longrightarrow>
            handleDecisionTreeChoice w button = Inr w)"
  using assms
  by (auto simp: handleDecisionTreeChoice_def truthy_def Let_def split: option.splits)

theorem handleDecisionTreeChoice_references_witness:
  "handleDecisionTreeChoice (mk_world choice_page initial_state) 2 =
     Inr (showDecisionStep (mk_world choice_page initial_state) (Num 2)) \<and>
   visible_decision_nodes
     (document (showDecisionStep (mk_world choice_page initial_state) (Num 2))) = [4] \<and>
   handleDecisionTreeChoice (mk_world choice_page initial_state) 3 =
     Inr (mk_world choice_page initial_state)"
proof -
  have len: "2 < length (document (mk_world choice_page initial_state))"
       "3 < length (document (mk_world choice_page initial_state))"
    by (simp_all add: mk_world_def choice_page_def)
  have p: "parseInt ''2'' = Num 2" by (simp add: js_eval)
  have v: "visible_decision_nodes
     (document (showDecisionStep (mk_world choice_page initial_state) (Num 2))) = [4]"
    by (simp add: visible_decision_nodes_def decision_node_def showDecisionStep_def choice_page_def
          dom_eval js_eval)
  show ?thesis
    using handleDecisionTreeChoice_references [OF len(1)]
          handleDecisionTreeChoice_references [OF len(2)] p v
    by (simp add: choice_page_def dom_eval)
qed

subsection \<open>Queries and updates of the page\<close>

lemma filter_upt_first:
  assumes "filter P [0..<n] = i # xs"
  shows "i < n \<and> P i \<and> (\<forall>j<i. \<not> P j)"
proof -
  have mem: "i \<in> set (filter P [0..<n])" using assms by simp
  have s: "sorted (filter P [0..<n])" by (simp add: sorted_wrt_filter)
  have "\<forall>j<i. \<not> P j"
  proof (intro allI impI notI)
    fix j assume "j < i" "P j"
    with mem have "j \<in> set (filter P [0..<n])" by simp
    then have "j \<in> set (i # xs)" using assms by simp
    moreover from s have "\<forall>x \<in> set xs. i \<le> x" using assms by simp
    ultimately show False using \<open>j < i\<close> by auto
  qed
  with mem show ?thesis by simp
qed

lemma filter_upt_single: "filter (\<lambda>j. j = i) [0..<n] = (if i < n then [i] else [])"
  by (induction n) auto

lemma querySelector_Some:
  "querySelector sel doc = Some i \<Longrightarrow> i < length doc \<and> sel (doc ! i) \<and> (\<forall>j<i. \<not> sel (doc ! j))"
  unfolding querySelector_def querySelectorAll_def
  by (auto split: list.splits dest!: filter_upt_first)

lemma querySelector_None:
  "querySelector sel doc = None \<Longrightarrow> \<forall>i<length doc. \<not> sel (doc ! i)"
  unfolding querySelector_def querySelectorAll_def
  by (auto split: list.splits simp: filter_empty_conv)

lemma querySelectorAll_cong:
  assumes "length doc' = length doc"
    and "\<And>i. i < length doc \<Longrightarrow> sel' (doc' ! i) = sel (doc ! i)"
  shows "querySelectorAll sel' doc' = querySelectorAll sel doc"
  unfolding querySelectorAll_def using assms by (auto intro: filter_cong)

lemma querySelector_cong:
  assumes "length doc' = length doc"
    and "\<And>i. i < length doc \<Longrightarrow> sel' (doc' ! i) = sel (doc ! i)"
  shows "querySelector sel' doc' = querySelector sel doc"
proof -
  have "querySelectorAll sel' doc' = querySelectorAll sel doc"
    by (rule querySelectorAll_cong) (use assms in auto)
  then show ?thesis by (simp add: querySelector_def)
qed

lemma querySelectorAll_only:
  assumes "i < length doc" and "\<And>j. j < length doc \<Longrightarrow> sel (doc ! j) = (j = i)"
  shows "querySelectorAll sel doc = [i]"
proof -
  have "querySelectorAll sel doc = filter (\<lambda>j. j = i) [0..<length doc]"
    unfolding querySelectorAll_def using assms(2) by (auto intro: filter_cong)
  with assms(1) show ?thesis by (simp add: filter_upt_single)
qed

lemma querySelectorAll_none:
  assumes "\<And>j. j < length doc \<Longrightarrow> \<not> sel (doc ! j)"
  shows "querySelectorAll sel doc = []"
  unfolding querySelectorAll_def using assms by (simp add: filter_empty_conv)

lemma length_forEachNode [simp]: "length (forEachNode sel f doc) = length doc"
  by (simp add: forEachNode_def)

lemma nth_forEachNode [simp]:
  "i < length doc \<Longrightarrow> forEachNode sel f doc ! i = (if sel (doc ! i) then f (doc ! i) else doc ! i)"
  by (simp add: forEachNode_def)

lemma length_update_node [simp]: "length (update_node i f doc) = length doc"
  by (simp add: update_node_def)

lemma nth_update_node [simp]:
  "j < length doc \<Longrightarrow> update_node i f doc ! j = (if j = i then f (doc ! j) else doc ! j)"
  by (auto simp: update_node_def)

lemma has_class_remove [simp]: "has_class c (classList_remove a n) = (has_class c n \<and> c \<noteq> a)"
  by (auto simp: has_class_def classList_remove_def)

lemma has_class_add [simp]: "has_class c (classList_add a n) = (has_class c n \<or> c = a)"
  by (auto simp: has_class_def classList_add_def)

lemma getAttribute_remove [simp]: "getAttribute k (classList_remove a n) = getAttribute k n"
  by (simp add: getAttribute_def classList_remove_def)

lemma getAttribute_add [simp]: "getAttribute k (classList_add a n) = getAttribute k n"
  by (simp add: getAttribute_def classList_add_def)

lemma length_deactivated [simp]: "length (deactivated doc) = length doc"
  by (simp add: deactivated_def)

lemma deactivated_class:
  "i < length doc \<Longrightarrow> c \<noteq> ''active'' \<Longrightarrow> has_class c (deactivated doc ! i) = has_class c (doc ! i)"
  by (simp add: deactivated_def)

lemma deactivated_attr:
  "i < length doc \<Longrightarrow> getAttribute k (deactivated doc ! i) = getAttribute k (doc ! i)"
  by (simp add: deactivated_def)

lemma deactivated_inactive:
  "i < length doc \<Longrightarrow> decision_node (deactivated doc ! i) \<Longrightarrow> \<not> has_class ''active'' (deactivated doc ! i)"
  by (auto simp: deactivated_def decision_node_def split: if_splits)

lemma decision_node_add_active [simp]:
  "decision_node (classList_add ''active'' n) = decision_node n"
  by (simp add: decision_node_def)

lemma visible_after_activation:
  "visible_decision_nodes
     (case target of None \<Rightarrow> deactivated doc
      | Some i \<Rightarrow> update_node i (classList_add ''active'') (deactivated doc)) =
   (case target of None \<Rightarrow> []
    | Some i \<Rightarrow> if i < length doc \<and> decision_node (deactivated doc ! i) then [i] else [])"
proof (cases target)
  case None
  then show ?thesis
    unfolding visible_decision_nodes_def
    by (auto intro!: querySelectorAll_none dest: deactivated_inactive)
next
  case (Some i)
  show ?thesis
  proof (cases "i < length doc \<and> decision_node (deactivated doc ! i)")
    case True
    then have i: "i < length doc" "decision_node (deactivated doc ! i)" by simp_all
    have "querySelectorAll (\<lambda>n. decision_node n \<and> has_class ''active'' n)
            (update_node i (classList_add ''active'') (deactivated doc)) = [i]"
    proof (rule querySelectorAll_only)
      show "i < length (update_node i (classList_add ''active'') (deactivated doc))" using i by simp
    next
      fix j assume "j < length (update_node i (classList_add ''active'') (deactivated doc))"
      then have j: "j < length doc" by simp
      show "(decision_node (update_node i (classList_add ''active'') (deactivated doc) ! j) \<and>
             has_class ''active'' (update_node i (classList_add ''active'') (deactivated doc) ! j)) = (j = i)"
        using i j deactivated_inactive [OF j] by auto
    qed
    with Some True show ?thesis by (simp add: visible_decision_nodes_def)
  next
    case False
    have "querySelectorAll (\<lambda>n. decision_node n \<and> has_class ''active'' n)
            (update_node i (classList_add ''active'') (deactivated doc)) = []"
    proof (rule querySelectorAll_none)
      fix j assume "j < length (update_node i (classList_add ''active'') (deactivated doc))"
      then have j: "j < length doc" by simp
      show "\<not> (decision_node (update_node i (classList_add ''active'') (deactivated doc) ! j) \<and>
               has_class ''active'' (update_node i (classList_add ''active'') (deactivated doc) ! j))"
        using False j deactivated_inactive [OF j] by auto
    qed
    with Some False show ?thesis by (simp add: visible_decision_nodes_def)
  qed
qed

subsection \<open>At most one node of the decision tree is visible\<close>

lemma step_query_deactivated:
  "querySelector (step_selector h k) (deactivated doc) = querySelector (step_selector h k) doc"
  by (rule querySelector_cong) (simp_all add: step_selector_def deactivated_class deactivated_attr)


lemma showDecisionStep_document:
  "document (showDecisionStep w k) =
     (case querySelector (step_selector (host w) k) (document w) of
        None \<Rightarrow> deactivated (document w)
      | Some i \<Rightarrow> update_node i (classList_add ''active'') (deactivated (document w)))"
  using step_query_deactivated [of "host w" k "document w"]
  by (simp add: showDecisionStep_def Let_def deactivated_def step_selector_def [abs_def]
        split: option.splits)

lemma showDecisionStep_visible:
  "visible_decision_nodes (document (showDecisionStep w k)) =
     (case querySelector (step_selector (host w) k) (document w) of None \<Rightarrow> [] | Some i \<Rightarrow> [i])"
proof (cases "querySelector (step_selector (host w) k) (document w)")
  case None
  then show ?thesis
    using visible_after_activation [where target = None and doc = "document w"] by (simp add: showDecisionStep_document)
next
  case (Some i)
  then have "i < length (document w) \<and> decision_node (deactivated (document w) ! i)"
    by (auto dest!: querySelector_Some simp: step_selector_def decision_node_def deactivated_class)
  then show ?thesis
    using Some visible_after_activation [where target = "Some i" and doc = "document w"]
    by (simp add: showDecisionStep_document)
qed








lemma showDecisionStep_state [simp]:
  "st (showDecisionStep w k) = (st w)\<lparr>decisionTreeStep := k\<rparr>"
  by (simp add: showDecisionStep_def Let_def)

lemma showDecisionStep_host [simp]: "host (showDecisionStep w k) = host w"
  by (simp add: showDecisionStep_def Let_def)

lemma showDecisionResult_state [simp]: "st (fst (showDecisionResult w r)) = st w"
  by (simp add: showDecisionResult_def Let_def split: sum.splits)



subsection \<open>Opening the decision tree and going back\<close>

lemma goBackDecision_first: "decisionTreeStep (st w) = Num 1 \<Longrightarrow> goBackDecision w = w"
  by (simp add: goBackDecision_def)

lemma goBackDecision_later:
  "decisionTreeStep (st w) = Num n \<Longrightarrow> 1 < n \<Longrightarrow> n \<le> 9007199254740992 \<Longrightarrow>
   goBackDecision w = showDecisionStep w (Num (n - 1))"
  by (simp add: goBackDecision_def exact_int_def)

lemma goBackDecision_beyond:
  "decisionTreeStep (st w) = Num n \<Longrightarrow> 9007199254740992 < n \<Longrightarrow>
   goBackDecision w = showDecisionStep w (Num (minusOne (host w) n))"
  by (simp add: goBackDecision_def exact_int_def)

lemma step_query_unhide:
  "querySelector (step_selector h k) (update_node m (\<lambda>n. n\<lparr>hidden := False\<rparr>) doc) =
   querySelector (step_selector h k) doc"
  by (rule querySelector_cong)
     (simp_all add: step_selector_def has_class_def getAttribute_def)

lemma openDecisionTreeModal_result:
  assumes "getElementById (document w) ''decisionTreeModal'' = Some modal"
  shows "\<exists>w'. openDecisionTreeModal w = Inr w' \<and> decisionTreeStep (st w') = Num 1 \<and>
              bodyOverflow w' = ''hidden'' \<and>
              visible_decision_nodes (document w') =
                (case querySelector (step_selector (host w) (Num 1)) (document w) of
                   None \<Rightarrow> [] | Some i \<Rightarrow> [i])"
proof -
  define w2 where "w2 = w\<lparr>document := update_node modal (\<lambda>n. n\<lparr>hidden := False\<rparr>) (document w),
                            bodyOverflow := ''hidden'',
                            st := (st w)\<lparr>decisionTreeStep := Num 1\<rparr>\<rparr>"
  have w2: "(w\<lparr>document := update_node modal (\<lambda>n. n\<lparr>hidden := False\<rparr>) (document w),
               bodyOverflow := ''hidden''\<rparr>)
              \<lparr>st := (st (w\<lparr>document := update_node modal (\<lambda>n. n\<lparr>hidden := False\<rparr>) (document w),
                               bodyOverflow := ''hidden''\<rparr>))\<lparr>decisionTreeStep := Num 1\<rparr>\<rparr> = w2"
    by (simp add: w2_def)
  define w3 where "w3 = showDecisionStep w2 (Num 1)"
  have v: "visible_decision_nodes (document w3) =
             (case querySelector (step_selector (host w) (Num 1)) (document w) of
                None \<Rightarrow> [] | Some i \<Rightarrow> [i])"
    unfolding w3_def showDecisionStep_visible by (simp add: w2_def step_query_unhide)
  have s: "decisionTreeStep (st w3) = Num 1" by (simp add: w3_def)
  have b: "bodyOverflow w3 = ''hidden''" by (simp add: w3_def w2_def showDecisionStep_def Let_def)
  have "openDecisionTreeModal w =
          Inr (case querySelectorIn (document w3) modal (\<lambda>n. tagName n = ''button'') of
                 None \<Rightarrow> w3 | Some b \<Rightarrow> emit (Focus b) w3)"
    using assms
    by (simp add: openDecisionTreeModal_def Let_def w3_def w2_def cong: option.case_cong)
  with v s b show ?thesis by (auto simp: emit_def split: option.splits)
qed

text \<open>
  Claim C4. On a page that has the modal, \<open>openDecisionTreeModal\<close> returns normally with
  \<open>decisionTreeStep\<close> equal to 1, whatever it was before, and with the question node of
  step 1 the only visible node of the tree (none visible if the page has no such node); on
  a page without the modal it raises a type error. \<open>goBackDecision\<close> at step 1
  returns the world unchanged. At every step \<open>n > 1\<close> up to \<open>2\<^sup>5\<^sup>3\<close>, where the
  host subtracts exactly, it is \<open>showDecisionStep\<close> of \<open>n - 1\<close>, on every page: the
  step becomes \<open>n - 1\<close>, and the first question node whose step identity is the numeral
  of \<open>n - 1\<close> is the only visible node of the tree; if the page has no such node, no node
  is visible. Beyond \<open>2\<^sup>5\<^sup>3\<close> it is \<open>showDecisionStep\<close> of what the host makes of
  \<open>n - 1\<close>.
\<close>

theorem decision_session_start_and_back:
  "(getElementById (document w) ''decisionTreeModal'' = None \<longrightarrow>
      openDecisionTreeModal w = Inl TypeError) \<and>
   (\<forall>modal. getElementById (document w) ''decisionTreeModal'' = Some modal \<longrightarrow>
      (\<exists>w'. openDecisionTreeModal w = Inr w' \<and> decisionTreeStep (st w') = Num 1 \<and>
            visible_decision_nodes (document w') =
              (case querySelector (step_selector (host w) (Num 1)) (document w) of
                 None \<Rightarrow> [] | Some i \<Rightarrow> [i]))) \<and>
   string_of_jsnum (host w) (Num 1) = ''1'' \<and>
   (decisionTreeStep (st w) = Num 1 \<longrightarrow> goBackDecision w = w) \<and>
   (\<forall>n. decisionTreeStep (st w) = Num n \<and> 1 < n \<and> n \<le> 9007199254740992 \<longrightarrow>
      goBackDecision w = showDecisionStep w (Num (n - 1)) \<and>
      decisionTreeStep (st (goBackDecision w)) = Num (n - 1) \<and>
      string_of_jsnum (host w) (Num (n - 1)) = string_of_int (n - 1) \<and>
      visible_decision_nodes (document (goBackDecision w)) =
        (case querySelector (step_selector (host w) (Num (n - 1))) (document w) of
           None \<Rightarrow> [] | Some i \<Rightarrow> [i])) \<and>
   (\<forall>n. decisionTreeStep (st w) = Num n \<and> 9007199254740992 < n \<longrightarrow>
      goBackDecision w = showDecisionStep w (Num (minusOne (host w) n)))"
proof (intro conjI allI impI)
  assume "getElementById (document w) ''decisionTreeModal'' = None"
  then show "openDecisionTreeModal w = Inl TypeError" by (simp add: openDecisionTreeModal_def)
next
  fix modal assume "getElementById (document w) ''decisionTreeModal'' = Some modal"
  from openDecisionTreeModal_result [OF this]
  show "\<exists>w'. openDecisionTreeModal w = Inr w' \<and> decisionTreeStep (st w') = Num 1 \<and>
            visible_decision_nodes (document w') =
              (case querySelector (step_selector (host w) (Num 1)) (document w) of
                 None \<Rightarrow> [] | Some i \<Rightarrow> [i])"
    by blast
next
  show "string_of_jsnum (host w) (Num 1) = ''1''" by (simp add: js_eval)
next
  assume "decisionTreeStep (st w) = Num 1"
  then show "goBackDecision w = w" by (rule goBackDecision_first)
next
  fix n
  assume a: "decisionTreeStep (st w) = Num n \<and> 1 < n \<and> n \<le> 9007199254740992"
  then have g: "goBackDecision w = showDecisionStep w (Num (n - 1))"
    by (simp add: goBackDecision_later)
  show "goBackDecision w = showDecisionStep w (Num (n - 1))" by (rule g)
  show "decisionTreeStep (st (goBackDecision w)) = Num (n - 1)" by (simp add: g)
  show "string_of_jsnum (host w) (Num (n - 1)) = string_of_int (n - 1)"
    using a by (simp add: string_of_jsnum_def exact_int_def)
  show "visible_decision_nodes (document (goBackDecision w)) =
          (case querySelector (step_selector (host w) (Num (n - 1))) (document w) of
             None \<Rightarrow> [] | Some i \<Rightarrow> [i])"
    by (simp add: g showDecisionStep_visible)
next
  fix n
  assume "decisionTreeStep (st w) = Num n \<and> 9007199254740992 < n"
  then show "goBackDecision w = showDecisionStep w (Num (minusOne (host w) n))"
    by (simp add: goBackDecision_beyond)
qed

theorem decision_session_start_and_back_witness:
  "openDecisionTreeModal (mk_world search_page initial_state) = Inl TypeError \<and>
   visible_decision_nodes (document second_step_world) = [4] \<and>
   (\<exists>w'. openDecisionTreeModal second_step_world = Inr w' \<and> decisionTreeStep (st w') = Num 1 \<and>
         visible_decision_nodes (document w') = [1]) \<and>
   goBackDecision (mk_world choice_page initial_state) = mk_world choice_page initial_state \<and>
   decisionTreeStep (st second_step_world) = Num 2 \<and>
   decisionTreeStep (st (goBackDecision second_step_world)) = Num 1 \<and>
   visible_decision_nodes (document (goBackDecision second_step_world)) = [1] \<and>
   decisionTreeStep (st fourth_step_world) = Num 4 \<and>
   decisionTreeStep (st (goBackDecision fourth_step_world)) = Num 3 \<and>
   visible_decision_nodes (document (goBackDecision fourth_step_world)) = [] \<and>
   goBackDecision huge_step_world = showDecisionStep huge_step_world (Num (2 ^ 1024))"
proof -
  let ?w = "mk_world choice_page initial_state"
  have nm: "getElementById (document (mk_world search_page initial_state)) ''decisionTreeModal'' = None"
    by (simp add: search_page_def dom_eval)
  have v2: "visible_decision_nodes (document second_step_world) = [4]"
    by (simp add: second_step_world_def visible_decision_nodes_def decision_node_def
          showDecisionStep_def choice_page_def dom_eval js_eval)
  have d2: "document second_step_world =
              update_node 4 (classList_add ''active'') (deactivated choice_page)"
    by (simp add: second_step_world_def showDecisionStep_def deactivated_def choice_page_def
          dom_eval js_eval)
  have h2: "host second_step_world = strict_host"
    by (simp add: second_step_world_def mk_world_def)
  have m: "getElementById (document second_step_world) ''decisionTreeModal'' = Some 0"
    unfolding d2 by (simp add: deactivated_def choice_page_def dom_eval)
  have q1: "querySelector (step_selector (host second_step_world) (Num 1)) (document second_step_world) = Some 1"
    unfolding d2 h2 by (simp add: step_selector_def deactivated_def choice_page_def dom_eval js_eval)
  have s2: "decisionTreeStep (st second_step_world) = Num 2"
    by (simp add: second_step_world_def)
  have s1: "decisionTreeStep (st ?w) = Num 1"
    by (simp add: mk_world_def initial_state_def)
  have b2: "decisionTreeStep (st second_step_world) = Num 2 \<and> 1 < (2::int) \<and>
              (2::int) \<le> 9007199254740992"
    using s2 by simp
  have d4: "document fourth_step_world = deactivated choice_page"
    by (simp add: fourth_step_world_def showDecisionStep_def deactivated_def choice_page_def
          dom_eval js_eval)
  have h4: "host fourth_step_world = strict_host"
    by (simp add: fourth_step_world_def mk_world_def)
  have s4: "decisionTreeStep (st fourth_step_world) = Num 4"
    by (simp add: fourth_step_world_def)
  have b4: "decisionTreeStep (st fourth_step_world) = Num 4 \<and> 1 < (4::int) \<and>
              (4::int) \<le> 9007199254740992"
    using s4 by simp
  have q3: "querySelector (step_selector (host fourth_step_world) (Num 3)) (document fourth_step_world) = None"
    unfolding d4 h4 by (simp add: step_selector_def deactivated_def choice_page_def dom_eval js_eval)
  have bh: "decisionTreeStep (st huge_step_world) = Num (2 ^ 1024) \<and>
              (9007199254740992 :: int) < 2 ^ 1024"
    by (simp add: huge_step_world_def mk_world_def)
  have mh: "minusOne (host huge_step_world) (2 ^ 1024) = 2 ^ 1024"
    by (simp add: huge_step_world_def mk_world_def strict_host_def)
  note A = decision_session_start_and_back [of second_step_world]
  note B = decision_session_start_and_back [of ?w]
  note C = decision_session_start_and_back [of fourth_step_world]
  note D = decision_session_start_and_back [of huge_step_world]
  note E = decision_session_start_and_back [of "mk_world search_page initial_state"]
  from E [THEN conjunct1, THEN mp, OF nm]
  have c0: "openDecisionTreeModal (mk_world search_page initial_state) = Inl TypeError" .
  from A [THEN conjunct2, THEN conjunct1, rule_format, OF m] q1
  have c1: "\<exists>w'. openDecisionTreeModal second_step_world = Inr w' \<and> decisionTreeStep (st w') = Num 1 \<and>
         visible_decision_nodes (document w') = [1]" by simp
  from B [THEN conjunct2, THEN conjunct2, THEN conjunct2, THEN conjunct1, rule_format, OF s1]
  have c2: "goBackDecision ?w = ?w" .
  from A [THEN conjunct2, THEN conjunct2, THEN conjunct2, THEN conjunct2, THEN conjunct1,
          rule_format, OF b2, THEN conjunct2] q1
  have c3: "decisionTreeStep (st (goBackDecision second_step_world)) = Num 1 \<and>
   visible_decision_nodes (document (goBackDecision second_step_world)) = [1]" by simp
  from C [THEN conjunct2, THEN conjunct2, THEN conjunct2, THEN conjunct2, THEN conjunct1,
          rule_format, OF b4, THEN conjunct2] q3
  have c4: "decisionTreeStep (st (goBackDecision fourth_step_world)) = Num 3 \<and>
   visible_decision_nodes (document (goBackDecision fourth_step_world)) = []" by simp
  from D [THEN conjunct2, THEN conjunct2, THEN conjunct2, THEN conjunct2, THEN conjunct2,
          rule_format, OF bh] mh
  have c5: "goBackDecision huge_step_world = showDecisionStep huge_step_world (Num (2 ^ 1024))"
    by simp
  from c0 c1 c2 c3 c4 c5 v2 s2 s4 show ?thesis by blast
qed

subsection \<open>A panel that is not on the page\<close>

text \<open>
  Claim C2. The claim says that no operation raises when an id has no node, and names
  \<open>collapseAllPanels\<close> and \<open>toggleDetailPanel\<close>. On the search page no element
  has the id \<open>step9-details\<close>. \<open>collapseAllPanels\<close> skips that id and only empties
  the list, but \<open>toggleDetailPanel\<close> for that id raises a type error: it writes
  \<open>hidden\<close> on the panel without the test that \<open>collapseAllPanels\<close> makes.
\<close>

theorem toggleDetailPanel_missing_panel_raises:
  "getElementById search_page ''step9-details'' = None \<and>
   toggleDetailPanel (mk_world search_page initial_state) ''step9-details'' 3 = Inl TypeError \<and>
   collapseAllPanels (mk_world search_page (initial_state\<lparr>expandedPanels := [''step9-details'']\<rparr>))
     = (mk_world search_page initial_state, None)"
  by (simp add: toggleDetailPanel_def collapseAllPanels_def collapsePanel_def search_page_def
        dom_eval)

subsection \<open>Filtering the glossary\<close>

lemma filterGlossary_hidden:
  assumes "i < length (document w)" and "has_class ''glossary-item'' (document w ! i)"
  shows "hidden (document (filterGlossary w q) ! i) =
           (trim (toLowerCase q) \<noteq> [] \<and>
            \<not> str_includes (searchableText (document w ! i)) (trim (toLowerCase q)))"
  using assms
  by (auto simp: filterGlossary_def Let_def searchableText_def truthy_def split: option.splits)

text \<open>
  Claim C3, as amended. For a glossary entry: a query that is empty or all white space
  leaves it visible; for a query that is not empty after trimming, the entry is visible
  exactly when its searchable text contains the lowercased, trimmed query, where the
  searchable text is the term tag as written when the entry has a non-empty one and the
  lowercased text of the entry otherwise. Two queries that differ only in case filter
  alike. So the case of the query never matters and the case of the text of an untagged
  entry does not matter, while a term tag is compared as it is written.
\<close>

theorem filterGlossary_entry_visibility:
  assumes "i < length (document w)" and "has_class ''glossary-item'' (document w ! i)"
  shows "((\<forall>c \<in> set q. is_space c) \<longrightarrow> \<not> hidden (document (filterGlossary w q) ! i)) \<and>
         (trim (toLowerCase q) \<noteq> [] \<longrightarrow>
            (\<not> hidden (document (filterGlossary w q) ! i)) =
              str_includes (searchableText (document w ! i)) (trim (toLowerCase q))) \<and>
         (toLowerCase q' = toLowerCase q \<longrightarrow> filterGlossary w q' = filterGlossary w q)"
proof (intro conjI impI)
  assume "\<forall>c \<in> set q. is_space c"
  then have "trim (toLowerCase q) = []" by (simp add: toLowerCase_blank trim_blank)
  then show "\<not> hidden (document (filterGlossary w q) ! i)"
    by (simp add: filterGlossary_hidden [OF assms])
next
  assume "trim (toLowerCase q) \<noteq> []"
  then show "(\<not> hidden (document (filterGlossary w q) ! i)) =
              str_includes (searchableText (document w ! i)) (trim (toLowerCase q))"
    by (simp add: filterGlossary_hidden [OF assms])
next
  assume "toLowerCase q' = toLowerCase q"
  then show "filterGlossary w q' = filterGlossary w q" by (simp add: filterGlossary_def)
qed

theorem filterGlossary_entry_visibility_witness:
  "\<not> hidden (document (filterGlossary (mk_world glossary_page initial_state) '' '') ! 2) \<and>
   \<not> hidden (document (filterGlossary (mk_world glossary_page initial_state) '' ReZon '') ! 2) \<and>
   hidden (document (filterGlossary (mk_world glossary_page initial_state) '' ReZon '') ! 1)"
proof -
  have l: "1 < length (document (mk_world glossary_page initial_state))"
          "2 < length (document (mk_world glossary_page initial_state))"
    by (simp_all add: mk_world_def glossary_page_def)
  have c: "has_class ''glossary-item'' (document (mk_world glossary_page initial_state) ! 1)"
          "has_class ''glossary-item'' (document (mk_world glossary_page initial_state) ! 2)"
    by (simp_all add: glossary_page_def dom_eval)
  have t: "trim (toLowerCase '' ReZon '') = ''rezon''" by (simp add: js_eval)
  have s: "searchableText (document (mk_world glossary_page initial_state) ! 2) = ''rezoning''"
          "searchableText (document (mk_world glossary_page initial_state) ! 1) =
             ''fsr floor space ratio''"
    by (simp_all add: searchableText_def glossary_page_def dom_eval js_eval)
  have b: "\<forall>c \<in> set '' ''. is_space c" by (simp add: is_space_def)
  from filterGlossary_entry_visibility [OF l(2) c(2), where q = "'' ''", THEN conjunct1, THEN mp, OF b]
  have 1: "\<not> hidden (document (filterGlossary (mk_world glossary_page initial_state) '' '') ! 2)" .
  from filterGlossary_entry_visibility [OF l(2) c(2), where q = "'' ReZon ''", THEN conjunct2, THEN conjunct1] t s
  have 2: "\<not> hidden (document (filterGlossary (mk_world glossary_page initial_state) '' ReZon '') ! 2)"
    by simp
  from filterGlossary_entry_visibility [OF l(1) c(1), where q = "'' ReZon ''", THEN conjunct2, THEN conjunct1] t s
  have 3: "hidden (document (filterGlossary (mk_world glossary_page initial_state) '' ReZon '') ! 1)"
    by simp
  from 1 2 3 show ?thesis by blast
qed

text \<open>
  The claim as stated fails: the entry tagged \<open>FSR\<close> contains the query \<open>fsr\<close>
  when case is ignored, yet the filter hides it, and shows the untagged entry with the same
  text. An entry whose tag is present but empty is searched by its text.
\<close>

theorem filterGlossary_uppercase_tag_hidden:
  "str_includes (toLowerCase ''FSR'') (trim (toLowerCase ''fsr'')) \<and>
   hidden (document (filterGlossary (mk_world glossary_page initial_state) ''fsr'') ! 0) \<and>
   \<not> hidden (document (filterGlossary (mk_world glossary_page initial_state) ''fsr'') ! 1) \<and>
   getAttribute ''data-term'' (glossary_page ! 3) = Some [] \<and>
   \<not> hidden (document (filterGlossary (mk_world glossary_page initial_state) ''cd-1'') ! 3)"
  by (simp add: filterGlossary_def glossary_page_def dom_eval js_eval)

subsection \<open>Toggling a detail panel twice\<close>

lemma hidden_setAttribute [simp]: "hidden (setAttribute k v n) = hidden n"
  by (simp add: setAttribute_def)

lemma elem_id_setAttribute [simp]: "elem_id (setAttribute k v n) = elem_id n"
  by (simp add: setAttribute_def)

lemma has_class_setAttribute [simp]: "has_class c (setAttribute k v n) = has_class c n"
  by (simp add: setAttribute_def has_class_def)

lemma getAttribute_setAttribute [simp]:
  "getAttribute k (setAttribute k' v n) = (if k = k' then Some v else getAttribute k n)"
  by (simp add: getAttribute_def setAttribute_def)

lemma getAttribute_hidden_update [simp]: "getAttribute k (n\<lparr>hidden := h\<rparr>) = getAttribute k n"
  by (simp add: getAttribute_def)

lemma has_class_hidden_update [simp]: "has_class c (n\<lparr>hidden := h\<rparr>) = has_class c n"
  by (simp add: has_class_def)

lemma getElementById_update_node:
  assumes "\<And>n. elem_id (f n) = elem_id n"
  shows "getElementById (update_node i f doc) x = getElementById doc x"
  unfolding getElementById_def
  by (auto intro!: querySelector_cong simp: assms)

lemma toggleDetailPanel_expand:
  assumes "button < length (document w)" and "getElementById (document w) panelId = Some p"
    and "getAttribute ''aria-expanded'' (document w ! button) \<noteq> Some ''true''"
  shows "toggleDetailPanel w panelId button =
           Inr (emit (SetTimeout (ScrollIntoViewLater p) 100)
                 (w\<lparr>document :=
                      update_node button (setAttribute ''aria-expanded'' ''true'')
                        (update_node p (\<lambda>n. n\<lparr>hidden := False\<rparr>) (document w)),
                    st := (st w)\<lparr>expandedPanels := expandedPanels (st w) @ [panelId]\<rparr>\<rparr>))"
  using assms by (simp add: toggleDetailPanel_def Let_def)

lemma toggleDetailPanel_collapse:
  assumes "button < length (document w)" and "getElementById (document w) panelId = Some p"
    and "getAttribute ''aria-expanded'' (document w ! button) = Some ''true''"
  shows "toggleDetailPanel w panelId button =
           Inr (w\<lparr>document :=
                    update_node button (setAttribute ''aria-expanded'' ''false'')
                      (update_node p (\<lambda>n. n\<lparr>hidden := True\<rparr>) (document w)),
                  st := (st w)\<lparr>expandedPanels :=
                          filter (\<lambda>i. i \<noteq> panelId) (expandedPanels (st w))\<rparr>\<rparr>)"
  using assms by (simp add: toggleDetailPanel_def Let_def)

lemma getElementById_Some: "getElementById doc x = Some p \<Longrightarrow> p < length doc \<and> elem_id (doc ! p) = x"
  by (auto simp: getElementById_def split: if_splits dest: querySelector_Some)

text \<open>
  Claim C5, as amended. Let the button be an element of the page and the panel id name a
  node, and let the starting state be consistent: either the button says expanded, the
  panel is shown and its id is listed in \<open>expandedPanels\<close>, or the button says
  collapsed, the panel is hidden and its id is not listed. Then two calls of
  \<open>toggleDetailPanel\<close> in succession both return, and afterwards the hidden flag of the
  panel, the \<open>aria-expanded\<close> attribute of the button and the membership of the id in
  \<open>expandedPanels\<close> are what they were.
\<close>

theorem toggleDetailPanel_twice_restores:
  assumes b: "button < length (document w)"
    and p: "getElementById (document w) panelId = Some p"
    and c: "(getAttribute ''aria-expanded'' (document w ! button) = Some ''true'' \<and>
             \<not> hidden (document w ! p) \<and> panelId \<in> set (expandedPanels (st w))) \<or>
            (getAttribute ''aria-expanded'' (document w ! button) = Some ''false'' \<and>
             hidden (document w ! p) \<and> panelId \<notin> set (expandedPanels (st w)))"
  shows "\<exists>w2. toggle_twice w panelId button = Inr w2 \<and>
              hidden (document w2 ! p) = hidden (document w ! p) \<and>
              getAttribute ''aria-expanded'' (document w2 ! button) =
                getAttribute ''aria-expanded'' (document w ! button) \<and>
              (panelId \<in> set (expandedPanels (st w2))) = (panelId \<in> set (expandedPanels (st w)))"
proof -
  from p have pl: "p < length (document w)" by (simp add: getElementById_Some)
  from c show ?thesis
  proof
    assume e: "getAttribute ''aria-expanded'' (document w ! button) = Some ''true'' \<and>
               \<not> hidden (document w ! p) \<and> panelId \<in> set (expandedPanels (st w))"
    define w1 where "w1 = w\<lparr>document :=
                    update_node button (setAttribute ''aria-expanded'' ''false'')
                      (update_node p (\<lambda>n. n\<lparr>hidden := True\<rparr>) (document w)),
                  st := (st w)\<lparr>expandedPanels :=
                          filter (\<lambda>i. i \<noteq> panelId) (expandedPanels (st w))\<rparr>\<rparr>"
    have t1: "toggleDetailPanel w panelId button = Inr w1"
      using toggleDetailPanel_collapse [OF b p] e by (simp add: w1_def)
    have b1: "button < length (document w1)" using b by (simp add: w1_def)
    have p1: "getElementById (document w1) panelId = Some p"
      using p by (simp add: w1_def getElementById_update_node)
    have a1: "getAttribute ''aria-expanded'' (document w1 ! button) \<noteq> Some ''true''"
      using b by (simp add: w1_def)
    note t2 = toggleDetailPanel_expand [OF b1 p1 a1]
    show ?thesis
      using t1 t2 e b pl by (auto simp: toggle_twice_def w1_def emit_def)
  next
    assume e: "getAttribute ''aria-expanded'' (document w ! button) = Some ''false'' \<and>
               hidden (document w ! p) \<and> panelId \<notin> set (expandedPanels (st w))"
    then have a: "getAttribute ''aria-expanded'' (document w ! button) \<noteq> Some ''true''" by simp
    define w1 where "w1 = emit (SetTimeout (ScrollIntoViewLater p) 100)
                 (w\<lparr>document :=
                      update_node button (setAttribute ''aria-expanded'' ''true'')
                        (update_node p (\<lambda>n. n\<lparr>hidden := False\<rparr>) (document w)),
                    st := (st w)\<lparr>expandedPanels := expandedPanels (st w) @ [panelId]\<rparr>\<rparr>)"
    have t1: "toggleDetailPanel w panelId button = Inr w1"
      using toggleDetailPanel_expand [OF b p a] by (simp add: w1_def)
    have b1: "button < length (document w1)" using b by (simp add: w1_def emit_def)
    have p1: "getElementById (document w1) panelId = Some p"
      using p by (simp add: w1_def emit_def getElementById_update_node)
    have a1: "getAttribute ''aria-expanded'' (document w1 ! button) = Some ''true''"
      using b by (simp add: w1_def emit_def)
    note t2 = toggleDetailPanel_collapse [OF b1 p1 a1]
    show ?thesis
      using t1 t2 e b pl by (auto simp: toggle_twice_def w1_def emit_def)
  qed
qed

theorem toggleDetailPanel_twice_restores_witness:
  "\<exists>w2. toggle_twice (mk_world search_page initial_state) ''step1-details'' 3 = Inr w2 \<and>
         hidden (document w2 ! 4) \<and>
         getAttribute ''aria-expanded'' (document w2 ! 3) = Some ''false'' \<and>
         ''step1-details'' \<notin> set (expandedPanels (st w2))"
proof -
  have b: "3 < length (document (mk_world search_page initial_state))"
    by (simp add: mk_world_def search_page_def)
  have p: "getElementById (document (mk_world search_page initial_state)) ''step1-details'' = Some 4"
    by (simp add: search_page_def dom_eval)
  have c: "(getAttribute ''aria-expanded'' (document (mk_world search_page initial_state) ! 3) = Some ''true'' \<and>
             \<not> hidden (document (mk_world search_page initial_state) ! 4) \<and>
             ''step1-details'' \<in> set (expandedPanels (st (mk_world search_page initial_state)))) \<or>
            (getAttribute ''aria-expanded'' (document (mk_world search_page initial_state) ! 3) = Some ''false'' \<and>
             hidden (document (mk_world search_page initial_state) ! 4) \<and>
             ''step1-details'' \<notin> set (expandedPanels (st (mk_world search_page initial_state))))"
    by (simp add: search_page_def dom_eval)
  have v: "hidden (document (mk_world search_page initial_state) ! 4)"
          "getAttribute ''aria-expanded'' (document (mk_world search_page initial_state) ! 3) = Some ''false''"
          "''step1-details'' \<notin> set (expandedPanels (st (mk_world search_page initial_state)))"
    by (simp_all add: search_page_def dom_eval)
  from toggleDetailPanel_twice_restores [OF b p c] v show ?thesis by simp
qed

text \<open>
  The claim as stated (from any starting state) fails. On a page with two buttons for one
  panel, using the first button once opens the panel; using the second button twice from
  there leaves the panel hidden and its id out of \<open>expandedPanels\<close>, although it was
  shown and listed before those two calls.
\<close>

theorem toggleDetailPanel_twice_not_restoring:
  "toggleDetailPanel (mk_world two_trigger_page initial_state) ''step1-details'' 0 =
     Inr two_trigger_open \<and>
   toggle_twice two_trigger_open ''step1-details'' 2 = Inr two_trigger_after \<and>
   \<not> hidden (document two_trigger_open ! 1) \<and>
   hidden (document two_trigger_after ! 1) \<and>
   ''step1-details'' \<in> set (expandedPanels (st two_trigger_open)) \<and>
   ''step1-details'' \<notin> set (expandedPanels (st two_trigger_after))"
  by (simp add: two_trigger_after_def two_trigger_open_def toggle_twice_def toggleDetailPanel_def
        two_trigger_page_def dom_eval)

subsection \<open>Switching tabs\<close>

lemma has_class_toggle [simp]:
  "has_class c (classList_toggle a b n) = (if b then has_class c n \<or> c = a else has_class c n \<and> c \<noteq> a)"
  by (simp add: classList_toggle_def)

lemma getAttribute_toggle [simp]: "getAttribute k (classList_toggle a b n) = getAttribute k n"
  by (simp add: classList_toggle_def)

lemma elem_id_toggle [simp]: "elem_id (classList_toggle a b n) = elem_id n"
  by (simp add: classList_toggle_def classList_add_def classList_remove_def)

lemma hidden_toggle [simp]: "hidden (classList_toggle a b n) = hidden n"
  by (simp add: classList_toggle_def classList_add_def classList_remove_def)

lemma classList_setAttribute [simp]: "classList (setAttribute k v n) = classList n"
  by (simp add: setAttribute_def)

lemma querySelectorAttr_bound:
  "querySelectorAttr h pre sel k v doc = Inr (Some b) \<Longrightarrow> b < length doc"
  by (auto simp: querySelectorAttr_def split: if_splits sum.splits option.splits
           dest: querySelector_Some)

lemma querySelectorAttr_plain:
  "css_plain v \<Longrightarrow>
   querySelectorAttr h pre sel k v doc =
     Inr (querySelector (\<lambda>n. sel n \<and> getAttribute k n = Some v) doc)"
  by (simp add: querySelectorAttr_def)

lemma collapsePanel_node:
  assumes "collapsePanel h x doc = Inr doc'"
  shows "length doc' = length doc"
    and "i < length doc \<Longrightarrow>
         classList (doc' ! i) = classList (doc ! i) \<and>
         elem_id (doc' ! i) = elem_id (doc ! i) \<and>
         (k \<noteq> ''aria-expanded'' \<longrightarrow> getAttribute k (doc' ! i) = getAttribute k (doc ! i)) \<and>
         (hidden (doc ! i) \<longrightarrow> hidden (doc' ! i)) \<and>
         (elem_id (doc ! i) \<noteq> x \<longrightarrow> hidden (doc' ! i) = hidden (doc ! i))"
proof -
  from assms obtain button where
    d: "doc' =
          (case button of
             None \<Rightarrow> (case getElementById doc x of None \<Rightarrow> doc
                      | Some p \<Rightarrow> update_node p (\<lambda>n. n\<lparr>hidden := True\<rparr>) doc)
           | Some b \<Rightarrow>
               update_node b (setAttribute ''aria-expanded'' ''false'')
                 (case getElementById doc x of None \<Rightarrow> doc
                  | Some p \<Rightarrow> update_node p (\<lambda>n. n\<lparr>hidden := True\<rparr>) doc))"
    by (auto simp: collapsePanel_def Let_def split: sum.splits)
  show "length doc' = length doc" by (simp add: d split: option.splits)
  show "classList (doc' ! i) = classList (doc ! i) \<and>
         elem_id (doc' ! i) = elem_id (doc ! i) \<and>
         (k \<noteq> ''aria-expanded'' \<longrightarrow> getAttribute k (doc' ! i) = getAttribute k (doc ! i)) \<and>
         (hidden (doc ! i) \<longrightarrow> hidden (doc' ! i)) \<and>
         (elem_id (doc ! i) \<noteq> x \<longrightarrow> hidden (doc' ! i) = hidden (doc ! i))"
    if "i < length doc"
    using that
    by (auto simp: d split: option.splits dest: getElementById_Some)
qed

lemma collapsePanel_plain:
  "css_plain x \<Longrightarrow> \<exists>doc'. collapsePanel h x doc = Inr doc'"
  by (simp add: collapsePanel_def querySelectorAttr_plain Let_def)

lemma length_collapseEach [simp]: "length (fst (collapseEach h xs doc)) = length doc"
proof (induction xs arbitrary: doc)
  case Nil
  then show ?case by simp
next
  case (Cons x xs)
  show ?case
  proof (cases "collapsePanel h x doc")
    case (Inl e)
    then show ?thesis by simp
  next
    case (Inr doc')
    with Cons.IH [of doc'] collapsePanel_node(1) [OF Inr] show ?thesis by simp
  qed
qed

lemma collapseEach_node:
  assumes "i < length doc"
  shows "classList (fst (collapseEach h xs doc) ! i) = classList (doc ! i) \<and>
         elem_id (fst (collapseEach h xs doc) ! i) = elem_id (doc ! i) \<and>
         (k \<noteq> ''aria-expanded'' \<longrightarrow>
            getAttribute k (fst (collapseEach h xs doc) ! i) = getAttribute k (doc ! i)) \<and>
         (hidden (doc ! i) \<longrightarrow> hidden (fst (collapseEach h xs doc) ! i)) \<and>
         (elem_id (doc ! i) \<notin> set xs \<longrightarrow>
            hidden (fst (collapseEach h xs doc) ! i) = hidden (doc ! i))"
  using assms
proof (induction xs arbitrary: doc)
  case Nil
  then show ?case by simp
next
  case (Cons x xs)
  show ?case
  proof (cases "collapsePanel h x doc")
    case (Inl e)
    then show ?thesis by simp
  next
    case (Inr doc')
    from Cons.prems collapsePanel_node(1) [OF Inr] have i: "i < length doc'" by simp
    from Cons.IH [OF i] collapsePanel_node(2) [OF Inr Cons.prems, of k] Inr
    show ?thesis by auto
  qed
qed

lemma collapseEach_plain:
  "list_all css_plain xs \<Longrightarrow> snd (collapseEach h xs doc) = None"
proof (induction xs arbitrary: doc)
  case Nil
  then show ?case by simp
next
  case (Cons x xs)
  then have "css_plain x" and xs: "list_all css_plain xs" by simp_all
  from collapsePanel_plain [OF this(1), of h doc] obtain doc' where
    "collapsePanel h x doc = Inr doc'" by blast
  with Cons.IH [OF xs, of doc'] show ?case by simp
qed

lemma collapseAllPanels_document:
  "document (fst (collapseAllPanels w)) =
     fst (collapseEach (host w) (expandedPanels (st w)) (document w))"
  by (simp add: collapseAllPanels_def split: prod.splits option.splits)

lemma collapseAllPanels_raised:
  "snd (collapseAllPanels w) = snd (collapseEach (host w) (expandedPanels (st w)) (document w))"
  by (simp add: collapseAllPanels_def split: prod.splits option.splits)

lemma collapseAllPanels_state:
  "st (fst (collapseAllPanels w)) =
     (if snd (collapseAllPanels w) = None then (st w)\<lparr>expandedPanels := []\<rparr> else st w)"
  by (simp add: collapseAllPanels_def split: prod.splits option.splits)

lemma collapseAllPanels_node:
  assumes "i < length (document w)"
  shows "has_class c (document (fst (collapseAllPanels w)) ! i) = has_class c (document w ! i) \<and>
         elem_id (document (fst (collapseAllPanels w)) ! i) = elem_id (document w ! i) \<and>
         (k \<noteq> ''aria-expanded'' \<longrightarrow>
            getAttribute k (document (fst (collapseAllPanels w)) ! i) =
              getAttribute k (document w ! i)) \<and>
         (hidden (document w ! i) \<longrightarrow> hidden (document (fst (collapseAllPanels w)) ! i)) \<and>
         (elem_id (document w ! i) \<notin> set (expandedPanels (st w)) \<longrightarrow>
            hidden (document (fst (collapseAllPanels w)) ! i) = hidden (document w ! i))"
  using collapseEach_node [OF assms, of "host w" "expandedPanels (st w)" k]
  by (simp add: collapseAllPanels_document has_class_def)

lemma length_collapseAllPanels [simp]:
  "length (document (fst (collapseAllPanels w))) = length (document w)"
  by (simp add: collapseAllPanels_document)

lemma length_highlightRelevantSteps [simp]:
  "length (document (highlightRelevantSteps w t)) = length (document w)"
  by (simp add: highlightRelevantSteps_def Let_def)

lemma highlightRelevantSteps_node:
  assumes "i < length (document w)"
  shows "has_class c (document (highlightRelevantSteps w t) ! i) = has_class c (document w ! i) \<and>
         elem_id (document (highlightRelevantSteps w t) ! i) = elem_id (document w ! i) \<and>
         getAttribute k (document (highlightRelevantSteps w t) ! i) = getAttribute k (document w ! i) \<and>
         hidden (document (highlightRelevantSteps w t) ! i) = hidden (document w ! i)"
  using assms
  by (simp add: highlightRelevantSteps_def Let_def has_class_def getAttribute_def)

lemma highlightRelevantSteps_state [simp]: "st (highlightRelevantSteps w t) = st w"
  by (simp add: highlightRelevantSteps_def Let_def)

lemma switchTab_unfold:
  "switchTab w T =
     (if snd (collapseAllPanels (tabs_marked w T)) = None
      then (highlightRelevantSteps (fst (collapseAllPanels (tabs_marked w T))) T, None)
      else collapseAllPanels (tabs_marked w T))"
  by (simp add: switchTab_def originalSwitchTab_def trackEvent_def emit_def Let_def
        mark_tabs_def show_tab_panel_def tabs_marked_def split: prod.splits option.splits)

lemma length_passes [simp]:
  "length (mark_tabs T doc) = length doc" "length (show_tab_panel T doc) = length doc"
  by (simp_all add: mark_tabs_def show_tab_panel_def)

lemma string_of_bool_true [simp]:
  "(string_of_bool b = ''true'') = b" "(''true'' = string_of_bool b) = b"
  by (simp_all add: string_of_bool_def)

lemma passes_node:
  assumes "i < length doc"
  shows "has_class ''tab'' (show_tab_panel T (mark_tabs T doc) ! i) = has_class ''tab'' (doc ! i)"
    and "has_class ''tab-content'' (show_tab_panel T (mark_tabs T doc) ! i) =
           has_class ''tab-content'' (doc ! i)"
    and "elem_id (show_tab_panel T (mark_tabs T doc) ! i) = elem_id (doc ! i)"
    and "has_class ''tab'' (doc ! i) \<Longrightarrow>
           getAttribute ''aria-selected'' (show_tab_panel T (mark_tabs T doc) ! i) =
             Some (string_of_bool (getAttribute ''data-tab'' (doc ! i) = Some T))"
    and "has_class ''tab-content'' (doc ! i) \<Longrightarrow>
           hidden (show_tab_panel T (mark_tabs T doc) ! i) = (elem_id (doc ! i) \<noteq> T @ ''-panel'')"
  using assms by (simp_all add: mark_tabs_def show_tab_panel_def)

lemma tabs_marked_fields [simp]:
  "document (tabs_marked w T) = show_tab_panel T (mark_tabs T (document w))"
  "st (tabs_marked w T) = (st w)\<lparr>activeTab := T\<rparr>"
  "host (tabs_marked w T) = host w"
  by (simp_all add: tabs_marked_def)

lemma switchTab_node:
  assumes "i < length (document w)"
  shows "has_class c (document (fst (switchTab w T)) ! i) =
           has_class c (document (fst (collapseAllPanels (tabs_marked w T))) ! i) \<and>
         getAttribute k (document (fst (switchTab w T)) ! i) =
           getAttribute k (document (fst (collapseAllPanels (tabs_marked w T))) ! i) \<and>
         hidden (document (fst (switchTab w T)) ! i) =
           hidden (document (fst (collapseAllPanels (tabs_marked w T))) ! i)"
proof -
  have i4: "i < length (document (fst (collapseAllPanels (tabs_marked w T))))"
    using assms by simp
  from highlightRelevantSteps_node [OF i4, of c T k] show ?thesis
    by (simp add: switchTab_unfold)
qed

lemma switchTab_length [simp]: "length (document (fst (switchTab w T))) = length (document w)"
  by (simp add: switchTab_unfold)

lemma switchTab_raised:
  "snd (switchTab w T) = snd (collapseAllPanels (tabs_marked w T))"
  by (simp add: switchTab_unfold)

lemma switchTab_state:
  "activeTab (st (fst (switchTab w T))) = T \<and>
   expandedPanels (st (fst (switchTab w T))) =
     (if snd (switchTab w T) = None then [] else expandedPanels (st w))"
  by (simp add: switchTab_unfold collapseAllPanels_state)

lemma switchTab_returns:
  "list_all css_plain (expandedPanels (st w)) \<Longrightarrow> snd (switchTab w T) = None"
  by (simp add: switchTab_raised collapseAllPanels_raised collapseEach_plain)

lemma switchTab_selected:
  assumes "i < length (document w)"
  shows "selected_tab (document (fst (switchTab w T)) ! i) = tab_for T (document w ! i)"
proof -
  have i3: "i < length (document (tabs_marked w T))" using assms by simp
  have c: "has_class ''tab'' (document (fst (switchTab w T)) ! i) = has_class ''tab'' (document w ! i)"
    using switchTab_node [OF assms, of "''tab''" T] collapseAllPanels_node [OF i3, of "''tab''"]
      passes_node(1) [OF assms, of T]
    by simp
  have a: "getAttribute ''aria-selected'' (document (fst (switchTab w T)) ! i) =
           getAttribute ''aria-selected'' (show_tab_panel T (mark_tabs T (document w)) ! i)"
    using switchTab_node [OF assms, of _ T "''aria-selected''"]
      collapseAllPanels_node [OF i3, of _ "''aria-selected''"]
    by simp
  show ?thesis
    using c a passes_node(4) [OF assms, of T]
    by (auto simp: selected_tab_def tab_for_def)
qed

lemma switchTab_visible_panel:
  assumes "i < length (document w)" and "T @ ''-panel'' \<notin> set (expandedPanels (st w))"
  shows "visible_tab_panel (document (fst (switchTab w T)) ! i) = tab_panel_for T (document w ! i)"
proof -
  let ?w3 = "tabs_marked w T"
  have i3: "i < length (document ?w3)" using assms by simp
  have e3: "expandedPanels (st ?w3) = expandedPanels (st w)" by simp
  have d3: "document ?w3 = show_tab_panel T (mark_tabs T (document w))" by simp
  have c: "has_class ''tab-content'' (document (fst (switchTab w T)) ! i) =
           has_class ''tab-content'' (document w ! i)"
    using switchTab_node [OF assms(1), of "''tab-content''" T]
      collapseAllPanels_node [OF i3, of "''tab-content''"] passes_node(2) [OF assms(1), of T]
    by simp
  have h1: "hidden (document (fst (switchTab w T)) ! i) =
            hidden (document (fst (collapseAllPanels ?w3)) ! i)"
    using switchTab_node [OF assms(1), of _ T] by simp
  note cn = collapseAllPanels_node [OF i3, of _ "''aria-selected''"]
  show ?thesis
  proof (cases "has_class ''tab-content'' (document w ! i)")
    case False
    with c show ?thesis by (simp add: visible_tab_panel_def tab_panel_for_def)
  next
    case True
    note p = passes_node(5) [OF assms(1) True, of T] passes_node(3) [OF assms(1), of T]
    show ?thesis
    proof (cases "elem_id (document w ! i) = T @ ''-panel''")
      case same: True
      then have "elem_id (document ?w3 ! i) \<notin> set (expandedPanels (st ?w3))"
        using assms(2) p by simp
      with cn have "hidden (document (fst (collapseAllPanels ?w3)) ! i) = hidden (document ?w3 ! i)"
        by simp
      with p same True c h1 show ?thesis
        by (simp add: visible_tab_panel_def tab_panel_for_def)
    next
      case other: False
      with p have "hidden (document ?w3 ! i)" by simp
      with cn have "hidden (document (fst (collapseAllPanels ?w3)) ! i)" by simp
      with other True c h1 show ?thesis
        by (simp add: visible_tab_panel_def tab_panel_for_def)
    qed
  qed
qed

text \<open>
  Claim C1, as amended. Let \<open>T\<close> be a known tab: the page has exactly one tab control
  with tab identity \<open>T\<close> and exactly one tab panel with id \<open>T-panel\<close>. After
  \<open>switchTab\<close> of \<open>T\<close>, whether it returned or raised, the tab controls marked
  selected are exactly that one control and the active tab is \<open>T\<close>; if the id
  \<open>T-panel\<close> was not listed in \<open>expandedPanels\<close> before the call, the visible tab
  panels are exactly that one panel. The call returns when no listed id holds a double
  quote, a backslash, a line break or NUL. When it returns, \<open>expandedPanels\<close> is empty;
  when it raises, which only the selector built from a listed id can make it do,
  \<open>expandedPanels\<close> is what it was.
\<close>

theorem switchTab_known_tab:
  assumes "known_tab (document w) T"
  shows "querySelectorAll selected_tab (document (fst (switchTab w T))) =
           querySelectorAll (tab_for T) (document w) \<and>
         length (querySelectorAll selected_tab (document (fst (switchTab w T)))) = 1 \<and>
         activeTab (st (fst (switchTab w T))) = T \<and>
         (T @ ''-panel'' \<notin> set (expandedPanels (st w)) \<longrightarrow>
            querySelectorAll visible_tab_panel (document (fst (switchTab w T))) =
              querySelectorAll (tab_panel_for T) (document w) \<and>
            length (querySelectorAll visible_tab_panel (document (fst (switchTab w T)))) = 1) \<and>
         (list_all css_plain (expandedPanels (st w)) \<longrightarrow> snd (switchTab w T) = None) \<and>
         (snd (switchTab w T) = None \<longrightarrow> expandedPanels (st (fst (switchTab w T))) = []) \<and>
         (snd (switchTab w T) \<noteq> None \<longrightarrow>
            expandedPanels (st (fst (switchTab w T))) = expandedPanels (st w))"
proof -
  have s: "querySelectorAll selected_tab (document (fst (switchTab w T))) =
           querySelectorAll (tab_for T) (document w)"
    by (rule querySelectorAll_cong) (simp_all add: switchTab_selected)
  have v: "querySelectorAll visible_tab_panel (document (fst (switchTab w T))) =
           querySelectorAll (tab_panel_for T) (document w)"
    if "T @ ''-panel'' \<notin> set (expandedPanels (st w))"
    by (rule querySelectorAll_cong) (simp_all add: switchTab_visible_panel [OF _ that])
  from s v assms switchTab_state [of w T] switchTab_returns [of w T]
  show ?thesis by (simp add: known_tab_def)
qed

theorem switchTab_known_tab_witness:
  "querySelectorAll selected_tab (document (fst (switchTab tabs_world ''developer''))) = [1] \<and>
   querySelectorAll visible_tab_panel (document (fst (switchTab tabs_world ''developer''))) = [3] \<and>
   list_all css_plain (expandedPanels (st tabs_world)) \<and>
   snd (switchTab tabs_world ''developer'') = None \<and>
   expandedPanels (st (fst (switchTab tabs_world ''developer''))) = [] \<and>
   activeTab (st (fst (switchTab tabs_world ''developer''))) = ''developer'' \<and>
   snd (switchTab quoted_id_world ''developer'') = Some SyntaxError \<and>
   querySelectorAll selected_tab (document (fst (switchTab quoted_id_world ''developer''))) = [1] \<and>
   querySelectorAll visible_tab_panel (document (fst (switchTab quoted_id_world ''developer''))) = [3] \<and>
   expandedPanels (st (fst (switchTab quoted_id_world ''developer''))) = [quoted_id]"
proof -
  have t: "querySelectorAll (tab_for ''developer'') (document tabs_world) = [1]"
    by (simp add: tab_for_def tabs_world_def tabs_page_def dom_eval)
  have p: "querySelectorAll (tab_panel_for ''developer'') (document tabs_world) = [3]"
    by (simp add: tab_panel_for_def tabs_world_def tabs_page_def dom_eval)
  have k: "known_tab (document tabs_world) ''developer''"
    using t p by (simp add: known_tab_def)
  have e: "''developer'' @ ''-panel'' \<notin> set (expandedPanels (st tabs_world))"
    by (simp add: tabs_world_def mk_world_def)
  have c: "list_all css_plain (expandedPanels (st tabs_world))"
    by (simp add: tabs_world_def mk_world_def css_plain_def)
  have dq: "document quoted_id_world = quoted_id_page_open"
    and sq: "expandedPanels (st quoted_id_world) = [quoted_id]"
    and hq: "host quoted_id_world = strict_host"
    by (simp_all add: quoted_id_world_def quoted_id_page_open_def click_def
          lone_expand_button_def other_listener_def form_control_def ancestors_def
          expandButtonListener_def toggleDetailPanel_def quoted_id_page_def quoted_id_def dom_eval)
  have tq: "querySelectorAll (tab_for ''developer'') (document quoted_id_world) = [1]"
    unfolding dq by (simp add: tab_for_def quoted_id_page_open_def quoted_id_def dom_eval)
  have pq: "querySelectorAll (tab_panel_for ''developer'') (document quoted_id_world) = [3]"
    unfolding dq by (simp add: tab_panel_for_def quoted_id_page_open_def quoted_id_def dom_eval)
  have kq: "known_tab (document quoted_id_world) ''developer''"
    using tq pq by (simp add: known_tab_def)
  have eq: "''developer'' @ ''-panel'' \<notin> set (expandedPanels (st quoted_id_world))"
    unfolding sq by (simp add: quoted_id_def)
  have rq: "snd (switchTab quoted_id_world ''developer'') = Some SyntaxError"
    unfolding switchTab_raised collapseAllPanels_raised tabs_marked_fields hq
    by (simp add: sq collapsePanel_def querySelectorAttr_def css_plain_def quoted_id_def
          strict_host_def)
  from switchTab_known_tab [OF k] e t p c
  have 1: "querySelectorAll selected_tab (document (fst (switchTab tabs_world ''developer''))) = [1] \<and>
   querySelectorAll visible_tab_panel (document (fst (switchTab tabs_world ''developer''))) = [3] \<and>
   snd (switchTab tabs_world ''developer'') = None \<and>
   expandedPanels (st (fst (switchTab tabs_world ''developer''))) = [] \<and>
   activeTab (st (fst (switchTab tabs_world ''developer''))) = ''developer''"
    by simp
  from switchTab_known_tab [OF kq] eq tq pq rq sq
  have 2: "querySelectorAll selected_tab (document (fst (switchTab quoted_id_world ''developer''))) = [1] \<and>
   querySelectorAll visible_tab_panel (document (fst (switchTab quoted_id_world ''developer''))) = [3] \<and>
   expandedPanels (st (fst (switchTab quoted_id_world ''developer''))) = [quoted_id]"
    by simp
  from 1 2 c rq show ?thesis by blast
qed

text \<open>
  The claim as stated fails in two ways. When the id of the tab panel is listed in
  \<open>expandedPanels\<close>, as it is after a click on an expand button that controls the tab
  panel, the loop over the tab panels shows the panel, and \<open>collapseAllPanels\<close>, which
  runs after it, hides it again, so no tab panel is visible. And when a listed id holds a double quote,
  as it does after the expand button of a panel with such an id was used, the selector that
  \<open>collapseAllPanels\<close> builds from it is one that a browser refuses: the call raises and
  \<open>expandedPanels\<close> is not emptied.
\<close>

theorem switchTab_listed_tab_panel_hidden:
  "click tab_button_world 10 = Inr tab_listed_world \<and>
   known_tab (document tab_listed_world) ''developer'' \<and>
   expandedPanels (st tab_listed_world) = [''step1-details'', ''developer-panel''] \<and>
   snd (switchTab tab_listed_world ''developer'') = None \<and>
   querySelectorAll visible_tab_panel (document (fst (switchTab tab_listed_world ''developer''))) = [] \<and>
   click (mk_world quoted_id_page initial_state) 4 = Inr quoted_id_world \<and>
   known_tab (document quoted_id_world) ''developer'' \<and>
   expandedPanels (st quoted_id_world) = [quoted_id] \<and>
   snd (switchTab quoted_id_world ''developer'') = Some SyntaxError \<and>
   expandedPanels (st (fst (switchTab quoted_id_world ''developer''))) = [quoted_id]"
proof -
  have c: "click tab_button_world 10 = Inr tab_listed_world"
    by (simp add: tab_listed_world_def click_def lone_expand_button_def other_listener_def
          form_control_def ancestors_def expandButtonListener_def toggleDetailPanel_def
          tab_button_world_def tab_button_page_def tabs_page_def dom_eval)
  have d: "tab_listed_world =
             projr (toggleDetailPanel tab_button_world ''developer-panel'' 10)"
    by (simp add: tab_listed_world_def click_def lone_expand_button_def other_listener_def
          form_control_def ancestors_def expandButtonListener_def toggleDetailPanel_def
          tab_button_world_def tab_button_page_def tabs_page_def dom_eval)
  have t: "known_tab (document tab_listed_world) ''developer'' \<and>
           expandedPanels (st tab_listed_world) = [''step1-details'', ''developer-panel''] \<and>
           snd (switchTab tab_listed_world ''developer'') = None \<and>
           querySelectorAll visible_tab_panel
             (document (fst (switchTab tab_listed_world ''developer''))) = []"
    unfolding d
    by (simp add: toggleDetailPanel_def known_tab_def tab_for_def
          tab_panel_for_def visible_tab_panel_def switchTab_def originalSwitchTab_def
          trackEvent_def collapseAllPanels_def collapsePanel_def highlightRelevantSteps_def
          tab_button_world_def tab_button_page_def tabs_page_def dom_eval)
  have cq: "click (mk_world quoted_id_page initial_state) 4 = Inr quoted_id_world"
    by (simp add: quoted_id_world_def click_def lone_expand_button_def other_listener_def
          form_control_def ancestors_def expandButtonListener_def toggleDetailPanel_def
          quoted_id_page_def quoted_id_def dom_eval)
  have dq: "quoted_id_world =
              projr (toggleDetailPanel (mk_world quoted_id_page initial_state) quoted_id 4)"
    by (simp add: quoted_id_world_def click_def lone_expand_button_def other_listener_def
          form_control_def ancestors_def expandButtonListener_def toggleDetailPanel_def
          quoted_id_page_def quoted_id_def dom_eval)
  have q: "known_tab (document quoted_id_world) ''developer'' \<and>
           expandedPanels (st quoted_id_world) = [quoted_id] \<and>
           snd (switchTab quoted_id_world ''developer'') = Some SyntaxError \<and>
           expandedPanels (st (fst (switchTab quoted_id_world ''developer''))) = [quoted_id]"
    unfolding dq
    by (simp add: toggleDetailPanel_def known_tab_def tab_for_def
          tab_panel_for_def switchTab_def originalSwitchTab_def trackEvent_def
          collapseAllPanels_def collapsePanel_def
          quoted_id_page_def quoted_id_def strict_host_def dom_eval)
  from c t cq q show ?thesis by blast
qed

subsection \<open>Searching for a term found in one detail panel\<close>

lemma elem_id_class_ops [simp]:
  "elem_id (classList_add c n) = elem_id n" "elem_id (classList_remove c n) = elem_id n"
  by (simp_all add: classList_add_def classList_remove_def)

lemma hidden_class_ops [simp]:
  "hidden (classList_add c n) = hidden n" "hidden (classList_remove c n) = hidden n"
  by (simp_all add: classList_add_def classList_remove_def)

lemma length_highlighted [simp]: "length (highlighted doc p) = length doc"
  by (simp add: highlighted_def)













lemma querySelectorAll_bound: "i \<in> set (querySelectorAll sel doc) \<Longrightarrow> i < length doc"
  by (simp add: querySelectorAll_def)








end
